theory Spec2Isabelle
  imports Main "HOL-Library.Sublist" "HOL-Library.AList" "HOL-Library.Word"
begin

section \<open>Library functions used by the MySQL records client\<close>

text \<open>
  Go strings are byte sequences, modelled as \<^typ>\<open>string\<close>. The functions of this section
  stand for the Go standard library calls made by \<^verbatim>\<open>getRecords\<close> and
  \<^verbatim>\<open>ExecuteQueryandFetchRecords\<close>.
\<close>

subsection \<open>strings.Contains\<close>

fun Contains :: "string \<Rightarrow> string \<Rightarrow> bool" where
  "Contains [] substr = (substr = [])"
| "Contains (c # s) substr = (prefix substr (c # s) \<or> Contains s substr)"

subsection \<open>strings.Replace with n = -1\<close>

text \<open>
  Non-overlapping occurrences of \<open>old\<close> are replaced from left to right. Both call sites pass
  a non-empty literal for \<open>old\<close>; for an empty \<open>old\<close> Go inserts \<open>new\<close> before every
  rune and at the end, written here per byte.
\<close>

function Replace :: "string \<Rightarrow> string \<Rightarrow> string \<Rightarrow> string" where
  "Replace [] old new = (if old = [] then new else [])"
| "Replace (c # s) old new =
     (if old = [] then new @ c # Replace s old new
      else if prefix old (c # s) then new @ Replace (drop (length old) (c # s)) old new
      else c # Replace s old new)"
  by pat_completeness auto
termination
  by (relation "measure (\<lambda>(s, old, new). length s)") auto

declare Replace.simps [simp del]

subsection \<open>strings.TrimSpace\<close>

text \<open>
  The UTF-8 encodings of the code points for which \<^verbatim>\<open>unicode.IsSpace\<close> holds: the six
  ASCII ones, U+0085, U+00A0, U+1680, U+2000 to U+200A, U+2028, U+2029, U+202F, U+205F
  and U+3000.
\<close>

definition spaceRunes :: "string list" where
  "spaceRunes =
     [[CHR 0x09], [CHR 0x0A], [CHR 0x0B], [CHR 0x0C], [CHR 0x0D], [CHR 0x20],
      [CHR 0xC2, CHR 0x85], [CHR 0xC2, CHR 0xA0], [CHR 0xE1, CHR 0x9A, CHR 0x80],
      [CHR 0xE2, CHR 0x80, CHR 0x80], [CHR 0xE2, CHR 0x80, CHR 0x81],
      [CHR 0xE2, CHR 0x80, CHR 0x82], [CHR 0xE2, CHR 0x80, CHR 0x83],
      [CHR 0xE2, CHR 0x80, CHR 0x84], [CHR 0xE2, CHR 0x80, CHR 0x85],
      [CHR 0xE2, CHR 0x80, CHR 0x86], [CHR 0xE2, CHR 0x80, CHR 0x87],
      [CHR 0xE2, CHR 0x80, CHR 0x88], [CHR 0xE2, CHR 0x80, CHR 0x89],
      [CHR 0xE2, CHR 0x80, CHR 0x8A], [CHR 0xE2, CHR 0x80, CHR 0xA8],
      [CHR 0xE2, CHR 0x80, CHR 0xA9], [CHR 0xE2, CHR 0x80, CHR 0xAF],
      [CHR 0xE2, CHR 0x81, CHR 0x9F], [CHR 0xE3, CHR 0x80, CHR 0x80]]"

definition leadingSpace :: "string \<Rightarrow> nat" where
  "leadingSpace s = (case find (\<lambda>r. prefix r s) spaceRunes of None \<Rightarrow> 0 | Some r \<Rightarrow> length r)"

definition trailingSpace :: "string \<Rightarrow> nat" where
  "trailingSpace s = (case find (\<lambda>r. suffix r s) spaceRunes of None \<Rightarrow> 0 | Some r \<Rightarrow> length r)"

function TrimLeftSpace :: "string \<Rightarrow> string" where
  "TrimLeftSpace s = (if leadingSpace s = 0 then s else TrimLeftSpace (drop (leadingSpace s) s))"
  by pat_completeness auto
termination
proof (relation "measure length")
  show "wf (measure length)" by simp
next
  fix s :: string
  assume "leadingSpace s \<noteq> 0"
  moreover have "leadingSpace s \<le> length s"
    by (auto simp: leadingSpace_def find_Some_iff split: option.splits dest: prefix_length_le)
  ultimately show "(drop (leadingSpace s) s, s) \<in> measure length" by simp
qed

function TrimRightSpace :: "string \<Rightarrow> string" where
  "TrimRightSpace s =
     (if trailingSpace s = 0 then s else TrimRightSpace (take (length s - trailingSpace s) s))"
  by pat_completeness auto
termination
proof (relation "measure length")
  show "wf (measure length)" by simp
next
  fix s :: string
  assume "trailingSpace s \<noteq> 0"
  moreover have "trailingSpace s \<le> length s"
    by (auto simp: trailingSpace_def find_Some_iff split: option.splits dest: suffix_length_le)
  ultimately show "(take (length s - trailingSpace s) s, s) \<in> measure length" by simp
qed

declare TrimLeftSpace.simps [simp del] TrimRightSpace.simps [simp del]

definition TrimSpace :: "string \<Rightarrow> string" where
  "TrimSpace s = TrimRightSpace (TrimLeftSpace s)"

subsection \<open>strconv.Itoa\<close>

definition digit :: "nat \<Rightarrow> char" where
  "digit d = char_of (48 + d)"

function digits :: "nat \<Rightarrow> string" where
  "digits n = (if n < 10 then [digit n] else digits (n div 10) @ [digit (n mod 10)])"
  by pat_completeness auto
termination
  by (relation "measure id") auto

declare digits.simps [simp del]

definition Itoa :: "int \<Rightarrow> string" where
  "Itoa i = (if i < 0 then CHR ''-'' # digits (nat (- i)) else digits (nat i))"

section \<open>Logging and errors\<close>

text \<open>
  A Go \<^verbatim>\<open>error\<close> is represented by its message. Every call on the zap logger appends one
  entry: its level, its message and its fields.
\<close>

type_synonym err = string

datatype level = ErrorLevel | InfoLevel | DebugLevel

datatype entry = Entry level string "(string \<times> string) list"

abbreviation queryIdField :: "string \<Rightarrow> string \<times> string" where
  "queryIdField qid \<equiv> (''queryId'', qid)"

abbreviation errorField :: "err \<Rightarrow> string \<times> string" where
  "errorField e \<equiv> (''error'', e)"

fun isError :: "entry \<Rightarrow> bool" where
  "isError (Entry l m fs) = (l = ErrorLevel)"

text \<open>
  A call either returns or panics (a nil dereference, a failed type assertion).
\<close>

datatype 'a outcome = Panicked | Returned 'a

section \<open>The database handle\<close>

text \<open>
  \<^verbatim>\<open>sql.RawBytes\<close>: \<open>None\<close> is the nil slice that Scan stores for SQL NULL.
\<close>

type_synonym RawBytes = "string option"

text \<open>
  What \<^verbatim>\<open>*sql.Rows\<close> yields: the answer of \<^verbatim>\<open>Columns()\<close>, one element for every
  iteration in which \<^verbatim>\<open>Next()\<close> is true (a driver error of Scan, or the fields of
  the row) and the answer of \<^verbatim>\<open>Err()\<close> once \<^verbatim>\<open>Next()\<close> is false.
\<close>

record Rows =
  Columns :: "err + string list"
  Next :: "(err + RawBytes list) list"
  Err :: "err option"

text \<open>
  \<^verbatim>\<open>*sql.DB\<close>: its Query method and the arguments last passed to its three pool setters.
  The lifetime is a \<^verbatim>\<open>time.Duration\<close>, an int64 count of nanoseconds.
\<close>

record DB =
  Query_db :: "string \<Rightarrow> err + Rows"
  ConnMaxLifetime :: "64 word"
  MaxOpenConns :: int
  MaxIdleConns :: int

section \<open>Configuration\<close>

text \<open>
  Modelled from the spec: the structs \<^verbatim>\<open>Config\<close> and \<^verbatim>\<open>DBQueries\<close> of the receiver are
  declared outside the files at hand. Their fields are the configuration surface of the
  specification (authentication mode, host, port, transport, user, password or
  ciphertext with the path of the secret, region and certificate path, database, the
  connection lifecycle limits; per query the identifier, the text and the optional
  cursor column, type and initial value), under the names by which the client reads
  them.
\<close>

record Config =
  AuthenticationMode :: string
  DBHost :: string
  DBPort :: string
  Transport :: string
  Username :: string
  Password :: string
  PasswordType :: string
  EncryptSecretPath :: string
  Database :: string
  Region :: string
  AWSCertificatePath :: string
  AllowNativePasswords :: bool
  SetConnMaxLifetime :: int
  SetMaxOpenConns :: int
  SetMaxIdleConns :: int

record DBQueries =
  QueryId :: string
  Query :: string
  IndexColumnName :: string
  IndexColumnType :: string
  InitialIndexColumnStartValue :: string

section \<open>JSON\<close>

text \<open>
  \<^verbatim>\<open>encoding/json\<close> is a parameter of the model: \<open>Marshal\<close> turns the string map of one
  row into a document of type \<open>'j\<close>, \<open>Unmarshal\<close> reads a document into a map of JSON
  values. Go maps are association lists with distinct keys, updated by
  \<^const>\<open>AList.update\<close>.
\<close>

datatype jvalue = JString string | JOther

record 'j codec =
  Marshal :: "(string \<times> string) list \<Rightarrow> err + 'j"
  Unmarshal :: "'j \<Rightarrow> err + (string \<times> jvalue) list"

text \<open>
  The codec in which a document is the object it denotes.
\<close>

definition objectCodec :: "(string \<times> string) list codec" where
  "objectCodec =
     \<lparr>Marshal = Inr, Unmarshal = (\<lambda>doc. Inr (map (\<lambda>(k, v). (k, JString v)) doc))\<rparr>"

section \<open>The client\<close>

text \<open>
  \<^verbatim>\<open>mysql.Config\<close>, as far as \<^verbatim>\<open>newMySQLClient\<close> fills it, and the connection string
  \<^verbatim>\<open>FormatDSN\<close> makes of it.
\<close>

record driverConf =
  User :: string
  Passwd :: string
  Net :: string
  Addr :: string
  DBName :: string
  AllowNative :: bool
  TLSConfig :: string
  AllowCleartextPasswords :: bool

datatype dsn = FormatDSN driverConf

record mySQLClient =
  connStr :: dsn
  client :: "DB option"
  conf :: Config

text \<open>
  The functions the client calls on files, on the AWS SDK, on the MySQL driver and on
  database/sql, and the helpers \<^verbatim>\<open>readMySecret\<close>, \<^verbatim>\<open>Encrypt\<close> and \<^verbatim>\<open>Decrypt\<close>, which are
  defined outside the files at hand. A Go function with results \<^verbatim>\<open>(T, error)\<close> returns both:
  the value and the error, if any.
\<close>

record externals =
  readMySecret :: "Config \<Rightarrow> string \<times> err option"
  Encrypt :: "string \<Rightarrow> string \<Rightarrow> string \<times> err option"
  Decrypt :: "string \<Rightarrow> string \<Rightarrow> string \<times> err option"
  LoadDefaultConfig :: "string \<times> err option"
  BuildAuthToken :: "string \<Rightarrow> string \<Rightarrow> string \<Rightarrow> string \<Rightarrow> string \<times> err option"
  ReadFile :: "string \<Rightarrow> string \<times> err option"
  AppendCertsFromPEM :: "string \<Rightarrow> bool"
  RegisterTLSConfig :: "string \<Rightarrow> string list \<Rightarrow> err option"
  Open :: "string \<Rightarrow> dsn \<Rightarrow> err + DB"

text \<open>\<^verbatim>\<open>zap.Error(err)\<close> is no field when \<open>err\<close> is nil.\<close>

definition zapError :: "err option \<Rightarrow> (string \<times> string) list" where
  "zapError err = (case err of None \<Rightarrow> [] | Some e \<Rightarrow> [errorField e])"

definition logIf :: "err option \<Rightarrow> string \<Rightarrow> entry list" where
  "logIf err msg = (case err of None \<Rightarrow> [] | Some e \<Rightarrow> [Entry ErrorLevel msg [errorField e]])"

text \<open>
  The root certificate pool is the list of bundles appended to it. The second entry is
  logged with the error of the read, which is nil when the read went well.
\<close>

definition createIAMRDSTLSConf :: "externals \<Rightarrow> string \<Rightarrow> string list \<times> entry list" where
  "createIAMRDSTLSConf ext pempath =
     (let (globalpem, err) = ReadFile ext pempath;
          ok = AppendCertsFromPEM ext globalpem
      in (if ok then [globalpem] else [],
          logIf err ''error in reading pem file'' @
          (if \<not> ok then
             [Entry ErrorLevel ''error in loading certificates from pem file'' (zapError err)]
           else [])))"

definition generateIAMAuthToken :: "externals \<Rightarrow> string \<Rightarrow> Config \<Rightarrow> string \<times> entry list" where
  "generateIAMAuthToken ext endpoint cf =
     (let (cfg, err) = LoadDefaultConfig ext;
          (authenticationToken, err') = BuildAuthToken ext endpoint (Region cf) (Username cf) cfg
      in (authenticationToken,
          logIf err ''configuration error:'' @ logIf err' ''failed to create authentication token:''))"

text \<open>
  \<^verbatim>\<open>newMySQLClient\<close> has one result, the client; it has no error result. The second
  component is what it logs.
\<close>

definition newMySQLClient :: "externals \<Rightarrow> Config \<Rightarrow> mySQLClient \<times> entry list" where
  "newMySQLClient ext cf =
     (let basicauthpassword0 = Password cf;
          es1 =
            (if (length (PasswordType cf) = 0 \<or> PasswordType cf = ''plaintext'')
                \<and> length (EncryptSecretPath cf) \<noteq> 0 then
               (let (secret, err) = readMySecret ext cf;
                    (encText, err') = Encrypt ext (Password cf) secret
                in logIf err ''error in reading encryption secret from file'' @
                   logIf err' ''error encrypting your classified text'' @
                   [Entry DebugLevel
                      ''The plaintext password can be replaced with this encrypted password.''
                      [(''encryptedPassword'', encText)]])
             else []);
          (basicauthpassword, es2) =
            (if PasswordType cf = ''encrypted'' then
               (let (secret, err) = readMySecret ext cf;
                    (decText, err') = Decrypt ext (Password cf) secret
                in (decText,
                    logIf err ''error in reading encryption secret from file'' @
                    logIf err' ''error decrypting your encrypted text: ''))
             else (basicauthpassword0, []));
          endpoint = DBHost cf @ '':'' @ DBPort cf;
          (driverConf, es3) =
            (if AuthenticationMode cf = ''IAMRDSAuth'' then
               (let (authenticationToken, esa) = generateIAMAuthToken ext endpoint cf;
                    (tlsConf, esb) = createIAMRDSTLSConf ext (AWSCertificatePath cf);
                    tlserr = RegisterTLSConfig ext ''custom'' tlsConf
                in (\<lparr>User = Username cf, Passwd = authenticationToken, Net = Transport cf,
                     Addr = endpoint, DBName = Database cf,
                     AllowNative = AllowNativePasswords cf, TLSConfig = ''custom'',
                     AllowCleartextPasswords = True\<rparr>,
                    esa @ esb @ logIf tlserr ''Error %s when RegisterTLSConfig''))
             else
               (\<lparr>User = Username cf, Passwd = basicauthpassword, Net = Transport cf,
                 Addr = endpoint, DBName = Database cf,
                 AllowNative = AllowNativePasswords cf, TLSConfig = [],
                 AllowCleartextPasswords = False\<rparr>, []))
      in (\<lparr>connStr = FormatDSN driverConf, client = None, conf = cf\<rparr>, es1 @ es2 @ es3))"

text \<open>
  \<^verbatim>\<open>Connect\<close>: the client as the call leaves it, the error it returns and what it logs.
  All three conditions read \<^verbatim>\<open>c.conf.SetConnMaxLifetime\<close>.
\<close>

definition Minute :: "64 word" where
  "Minute = 60000000000"

definition Connect :: "externals \<Rightarrow> mySQLClient \<Rightarrow> (mySQLClient \<times> err option) \<times> entry list" where
  "Connect ext c =
     (case Open ext ''mysql'' (connStr c) of
        Inl e \<Rightarrow> ((c, Some e), [Entry ErrorLevel ''Unable to connect to database'' [errorField e]])
      | Inr clientDB0 \<Rightarrow>
          (let clientDB1 =
                 (if SetConnMaxLifetime (conf c) \<noteq> 0 then
                    clientDB0\<lparr>ConnMaxLifetime := Minute * word_of_int (SetConnMaxLifetime (conf c))\<rparr>
                  else clientDB0\<lparr>ConnMaxLifetime := Minute * 3\<rparr>);
               clientDB2 =
                 (if SetConnMaxLifetime (conf c) \<noteq> 0 then
                    clientDB1\<lparr>MaxOpenConns := SetMaxOpenConns (conf c)\<rparr>
                  else clientDB1\<lparr>MaxOpenConns := 5\<rparr>);
               clientDB =
                 (if SetConnMaxLifetime (conf c) \<noteq> 0 then
                    clientDB2\<lparr>MaxIdleConns := SetMaxIdleConns (conf c)\<rparr>
                  else clientDB2\<lparr>MaxIdleConns := 5\<rparr>)
           in ((c\<lparr>client := Some clientDB\<rparr>, None), [])))"

section \<open>ExecuteQueryandFetchRecords\<close>

text \<open>
  The inner loop over the scanned values of one row. The assignment of \<open>''NULL''\<close> to
  \<open>value\<close> is followed by no append: the append is in the else branch.
\<close>

fun lineLoop :: "RawBytes list \<Rightarrow> string \<times> string list \<Rightarrow> string \<times> string list" where
  "lineLoop [] (value, line) = (value, line)"
| "lineLoop (col # values) (value, line) =
     (case col of
        None \<Rightarrow> lineLoop values (''NULL'', line)
      | Some b \<Rightarrow> lineLoop values (b, line @ [b]))"

text \<open>
  \<^verbatim>\<open>rows.Scan(scanArgs...)\<close> with one destination per column: the driver's error, or the
  error of database/sql when the row has another number of fields than destinations.
\<close>

definition Scan :: "nat \<Rightarrow> err + RawBytes list \<Rightarrow> err + RawBytes list" where
  "Scan n r =
     (case r of
        Inl e \<Rightarrow> Inl e
      | Inr vals \<Rightarrow>
          if length vals = n then Inr vals
          else Inl ''sql: expected destination arguments in Scan'')"

text \<open>The loop \<^verbatim>\<open>for rows.Next()\<close>; it returns at the first Scan error.\<close>

fun rowsLoop :: "nat \<Rightarrow> (err + RawBytes list) list \<Rightarrow> string list list \<Rightarrow> err + string list list" where
  "rowsLoop n [] lines = Inr lines"
| "rowsLoop n (r # rs) lines =
     (case Scan n r of
        Inl e \<Rightarrow> Inl e
      | Inr values \<Rightarrow> rowsLoop n rs (lines @ [snd (lineLoop values ([], []))]))"

text \<open>
  The loop over \<open>lines\<close>. \<open>myjsonobject\<close> is declared before the loop and carried from one
  line to the next; \<open>j\<close> is the index of the line. \<open>columns[i]\<close> is in range: a line is
  no longer than the scanned values, and Scan has one value per column. The second test
  of \<open>err\<close> in the loop body comes after the first has returned on an error; it never
  fires.
\<close>

definition setFields :: "string list \<Rightarrow> string list \<Rightarrow> (string \<times> string) list \<Rightarrow> (string \<times> string) list" where
  "setFields columns value myjsonobject =
     foldl (\<lambda>obj (col, v). AList.update col v obj) myjsonobject (zip columns value)"

fun linesLoop ::
  "'j codec \<Rightarrow> string list \<Rightarrow> string \<Rightarrow> nat \<Rightarrow> string list list \<Rightarrow>
   (string \<times> string) list \<times> (string \<times> 'j) list \<times> string \<Rightarrow>
   err + ((string \<times> string) list \<times> (string \<times> 'j) list \<times> string)" where
  "linesLoop js columns queryid j [] acc = Inr acc"
| "linesLoop js columns queryid j (value # lines) (myjsonobject, myEntireRecord, lastIndex) =
     (let obj = setFields columns value myjsonobject in
      case Marshal js obj of
        Inl e \<Rightarrow> Inl e
      | Inr jsonStr \<Rightarrow>
          let index = queryid @ ''_record'' @ Itoa (int j + 1) in
          linesLoop js columns queryid (Suc j) lines
            (obj, AList.update index jsonStr myEntireRecord, index))"

text \<open>
  The result is the triple the Go function returns (a nil map is \<open>None\<close>) and the entries
  it logs. A nil \<^verbatim>\<open>c.client\<close> panics in \<^verbatim>\<open>Query\<close>.
\<close>

type_synonym 'j fetched = "(string \<times> 'j) list option \<times> string \<times> err option"

definition ExecuteQueryandFetchRecords ::
  "'j codec \<Rightarrow> mySQLClient \<Rightarrow> string \<Rightarrow> string \<Rightarrow> ('j fetched \<times> entry list) outcome" where
  "ExecuteQueryandFetchRecords js c query queryid =
     (case client c of
        None \<Rightarrow> Panicked
      | Some db \<Rightarrow> Returned
          (case Query_db db query of
             Inl e \<Rightarrow>
               ((None, [], None),
                [Entry ErrorLevel ''Error in executing sql query'' [queryIdField queryid, errorField e]])
           | Inr rows \<Rightarrow>
               (case Columns rows of
                  Inl e \<Rightarrow>
                    ((None, [], None),
                     [Entry ErrorLevel ''Error getting column names from table''
                        [queryIdField queryid, errorField e]])
                | Inr columns \<Rightarrow>
                    (case rowsLoop (length columns) (Next rows) [] of
                       Inl e \<Rightarrow>
                         ((None, [], None),
                          [Entry ErrorLevel ''Error scanning rows from table''
                             [queryIdField queryid, errorField e]])
                     | Inr lines \<Rightarrow>
                         (case Err rows of
                            Some e \<Rightarrow>
                              ((None, [], None),
                               [Entry ErrorLevel ''Error found in rows''
                                  [queryIdField queryid, errorField e]])
                          | None \<Rightarrow>
                              (case linesLoop js columns queryid 0 lines ([], [], []) of
                                 Inl e \<Rightarrow>
                                   ((None, [], None),
                                    [Entry ErrorLevel ''Error in marshalling json object''
                                       [queryIdField queryid, errorField e]])
                               | Inr (myjsonobject, myEntireRecord, lastIndex) \<Rightarrow>
                                   ((Some myEntireRecord, lastIndex, None), [])))))))"

section \<open>The checkpoint store\<close>

text \<open>
  Modelled from the spec: \<^verbatim>\<open>GetState\<close> and \<^verbatim>\<open>SaveState\<close> are called by
  \<^verbatim>\<open>getRecords\<close> and defined outside the files at hand. The checkpoint is a mapping from
  the query identifier to the last cursor value; on the first run, when the query has no
  entry, the current value is the configured initial value. What the two functions log
  is not modelled.
\<close>

type_synonym checkpoint = "string \<rightharpoonup> string"

definition GetState :: "DBQueries \<Rightarrow> checkpoint \<Rightarrow> string" where
  "GetState dbquery st =
     (case st (QueryId dbquery) of
        None \<Rightarrow> InitialIndexColumnStartValue dbquery
      | Some v \<Rightarrow> v)"

definition SaveState :: "DBQueries \<Rightarrow> string \<Rightarrow> checkpoint \<Rightarrow> checkpoint" where
  "SaveState dbquery v st = st(QueryId dbquery \<mapsto> v)"

section \<open>getRecords\<close>

abbreviation quote :: char where
  "quote \<equiv> CHR 0x22"

text \<open>
  The chain of conditions at the head of \<^verbatim>\<open>getRecords\<close>. \<open>Inl\<close> carries the entries
  logged before \<^verbatim>\<open>return nil, nil\<close>; \<open>Inr\<close> carries the query as the chain leaves it
  (\<^verbatim>\<open>dbquery\<close> is a pointer, the appended text stays in the struct) and the entries
  logged.
\<close>

definition checkQuery :: "DBQueries \<Rightarrow> entry list + DBQueries \<times> entry list" where
  "checkQuery dbquery =
     (if length (TrimSpace (Query dbquery)) = 0 then
        Inl [Entry ErrorLevel ''Query is empty, check collector config file for:''
               [queryIdField (QueryId dbquery)]]
      else if length (TrimSpace (IndexColumnName dbquery)) = 0 then
        Inr (dbquery,
             [Entry InfoLevel
                ''IndexColumnName missing from collector config file, so fetching all records for:''
                [queryIdField (QueryId dbquery)]])
      else if length (TrimSpace (IndexColumnName dbquery)) \<noteq> 0
              \<and> length (TrimSpace (IndexColumnType dbquery)) = 0 then
        Inl [Entry ErrorLevel
               ''IndexColummType should be specified with a IndexColumnName for a query.''
               [queryIdField (QueryId dbquery)],
             Entry ErrorLevel ''Supported values are TIMESTAMP or NUMBER.''
               [queryIdField (QueryId dbquery)]]
      else if IndexColumnType dbquery \<noteq> ''TIMESTAMP'' \<and> IndexColumnType dbquery \<noteq> ''NUMBER'' then
        Inl [Entry ErrorLevel
               ''Configured non supported Indexcolummtype, supported values are TIMESTAMP or NUMBER.''
               [queryIdField (QueryId dbquery)],
             Entry ErrorLevel ''Check collector configuration file for:''
               [queryIdField (QueryId dbquery)]]
      else if length (TrimSpace (IndexColumnName dbquery)) \<noteq> 0 then
        Inr ((if IndexColumnType dbquery = ''TIMESTAMP'' then
                (if Contains (Query dbquery) ''where'' then
                   dbquery\<lparr>Query := Query dbquery @ '' and INDEXCOLUMNNAME > '' @ [quote]
                     @ ''STATEVALUE'' @ [quote] @ '' order by INDEXCOLUMNNAME asc;''\<rparr>
                 else
                   dbquery\<lparr>Query := Query dbquery @ '' where INDEXCOLUMNNAME > '' @ [quote]
                     @ ''STATEVALUE'' @ [quote] @ '' order by INDEXCOLUMNNAME asc;''\<rparr>)
              else if IndexColumnType dbquery = ''NUMBER'' then
                (if Contains (Query dbquery) ''where'' then
                   dbquery\<lparr>Query := Query dbquery
                     @ '' and INDEXCOLUMNNAME > STATEVALUE order by INDEXCOLUMNNAME asc;''\<rparr>
                 else
                   dbquery\<lparr>Query := Query dbquery
                     @ '' where INDEXCOLUMNNAME > STATEVALUE order by INDEXCOLUMNNAME asc;''\<rparr>)
              else dbquery),
             [Entry InfoLevel ''IndexColumnName specified, fetching records incrementally for:''
                [queryIdField (QueryId dbquery)]])
      else Inr (dbquery, []))"

text \<open>
  What one call leaves behind: how it ended (the returned map and error, or a panic), the
  struct behind the \<^verbatim>\<open>dbquery\<close> pointer, the checkpoint store, the entries logged and,
  in order, the calls made on the database and on the checkpoint store (a call that
  panics included).
\<close>

datatype call = CallQuery string | CallGetState string | CallSaveState string string

record 'j run =
  ret :: "((string \<times> 'j) list option \<times> err option) outcome"
  dbquery_after :: DBQueries
  state_after :: checkpoint
  logged :: "entry list"
  calls :: "call list"

text \<open>
  \<^verbatim>\<open>for key, element := range queryFetchResult { myEntireRecords[key] = element }\<close> into a
  fresh map, and \<^verbatim>\<open>len(queryFetchResult) == 0\<close>; both accept the nil map.
\<close>

definition copyRecords :: "(string \<times> 'j) list option \<Rightarrow> (string \<times> 'j) list" where
  "copyRecords queryFetchResult =
     foldl (\<lambda>m (key, element). AList.update key element m) []
       (case queryFetchResult of None \<Rightarrow> [] | Some r \<Rightarrow> r)"

definition noRecords :: "(string \<times> 'j) list option \<Rightarrow> bool" where
  "noRecords queryFetchResult = (case queryFetchResult of None \<Rightarrow> True | Some r \<Rightarrow> r = [])"

text \<open>The branch for a query without index column (the first branch of the second if).\<close>

definition fetchAll ::
  "'j codec \<Rightarrow> mySQLClient \<Rightarrow> DBQueries \<Rightarrow> checkpoint \<Rightarrow> entry list \<Rightarrow> 'j run" where
  "fetchAll js c dbquery st es =
     (case ExecuteQueryandFetchRecords js c (Query dbquery) (QueryId dbquery) of
        Panicked \<Rightarrow>
          \<lparr>ret = Panicked, dbquery_after = dbquery, state_after = st, logged = es,
           calls = [CallQuery (Query dbquery)]\<rparr>
      | Returned ((queryFetchResult, lastIndex, err), es') \<Rightarrow>
          (case err of
             Some e \<Rightarrow>
               \<lparr>ret = Returned (None, None), dbquery_after = dbquery, state_after = st,
                logged = es @ es' @
                  [Entry ErrorLevel ''Error in executing query and fetching records for:''
                     [queryIdField (QueryId dbquery), errorField e]],
                calls = [CallQuery (Query dbquery)]\<rparr>
           | None \<Rightarrow>
               \<lparr>ret = Returned (Some (copyRecords queryFetchResult), None),
                dbquery_after = dbquery, state_after = st,
                logged = es @ es' @
                  [if noRecords queryFetchResult then
                     Entry InfoLevel ''No database records found for query with:''
                       [queryIdField (QueryId dbquery)]
                   else
                     Entry InfoLevel ''Database records found for query with:''
                       [queryIdField (QueryId dbquery)]],
                calls = [CallQuery (Query dbquery)]\<rparr>))"

text \<open>
  The branch for a query with index column. The type assertion
  \<^verbatim>\<open>lastRecordFetchedVal[dbquery.IndexColumnName].(string)\<close> has no second result: it
  panics when the decoded record has no such key or the value is not a string. A key
  absent from \<open>myEntireRecords\<close> reads as the empty string, which \<^verbatim>\<open>json.Unmarshal\<close>
  rejects.
\<close>

definition fetchIncremental ::
  "'j codec \<Rightarrow> mySQLClient \<Rightarrow> DBQueries \<Rightarrow> checkpoint \<Rightarrow> entry list \<Rightarrow> 'j run" where
  "fetchIncremental js c dbquery0 st es =
     (let currentState = GetState dbquery0 st;
          dbquery1 = dbquery0\<lparr>Query := Replace (Query dbquery0) ''STATEVALUE'' currentState\<rparr>;
          dbquery = dbquery1\<lparr>Query :=
            Replace (Query dbquery1) ''INDEXCOLUMNNAME'' (IndexColumnName dbquery1)\<rparr>;
          cs = [CallGetState (QueryId dbquery0), CallQuery (Query dbquery)]
      in
      case ExecuteQueryandFetchRecords js c (Query dbquery) (QueryId dbquery) of
        Panicked \<Rightarrow>
          \<lparr>ret = Panicked, dbquery_after = dbquery, state_after = st, logged = es, calls = cs\<rparr>
      | Returned ((queryFetchResult, lastIndex, err), es') \<Rightarrow>
          (let myEntireRecords = copyRecords queryFetchResult in
           case err of
             Some e \<Rightarrow>
               \<lparr>ret = Returned (None, None), dbquery_after = dbquery, state_after = st,
                logged = es @ es' @
                  [Entry ErrorLevel ''Error in executing query and fetching records''
                     [queryIdField (QueryId dbquery), errorField e]],
                calls = cs\<rparr>
           | None \<Rightarrow>
               if noRecords queryFetchResult then
                 \<lparr>ret = Returned (Some myEntireRecords, None), dbquery_after = dbquery,
                  state_after = st,
                  logged = es @ es' @
                    [Entry InfoLevel ''No new records found for query with : ''
                       [queryIdField (QueryId dbquery)]],
                  calls = cs\<rparr>
               else
                 (let es'' = es @ es' @
                        [Entry InfoLevel ''New database records found for query with : ''
                           [queryIdField (QueryId dbquery)]];
                      decoded =
                        (case map_of myEntireRecords lastIndex of
                           None \<Rightarrow> Inl ''unexpected end of JSON input''
                         | Some lastRecordFetched \<Rightarrow> Unmarshal js lastRecordFetched)
                  in
                  case decoded of
                    Inl e \<Rightarrow>
                      \<lparr>ret = Returned (None, None), dbquery_after = dbquery, state_after = st,
                       logged = es'' @
                         [Entry ErrorLevel
                            ''Problem converting sql query resultset into json format for:''
                            [queryIdField (QueryId dbquery), errorField e]],
                       calls = cs\<rparr>
                  | Inr lastRecordFetchedVal \<Rightarrow>
                      (case map_of lastRecordFetchedVal (IndexColumnName dbquery) of
                         Some (JString lastRecordStateNumber) \<Rightarrow>
                           \<lparr>ret = Returned (Some myEntireRecords, None), dbquery_after = dbquery,
                            state_after = SaveState dbquery lastRecordStateNumber st,
                            logged = es'',
                            calls = cs @ [CallSaveState (QueryId dbquery) lastRecordStateNumber]\<rparr>
                       | _ \<Rightarrow>
                           \<lparr>ret = Panicked, dbquery_after = dbquery, state_after = st,
                            logged = es'', calls = cs\<rparr>))))"

definition getRecords :: "'j codec \<Rightarrow> mySQLClient \<Rightarrow> DBQueries \<Rightarrow> checkpoint \<Rightarrow> 'j run" where
  "getRecords js c dbquery st =
     (case checkQuery dbquery of
        Inl es \<Rightarrow>
          \<lparr>ret = Returned (None, None), dbquery_after = dbquery, state_after = st,
           logged = es, calls = []\<rparr>
      | Inr (dbquery', es) \<Rightarrow>
          if length (TrimSpace (IndexColumnName dbquery')) = 0 then fetchAll js c dbquery' st es
          else fetchIncremental js c dbquery' st es)"

section \<open>The rewritten query and the record keys, in the words of the specification\<close>

text \<open>
  The predicate \<open>cursor > value\<close> appended to the query text, joined with \<open>and\<close> when the
  text has a filter clause and with \<open>where\<close> otherwise, followed by the ordering; the
  value is quoted for a TIMESTAMP cursor. Whether the text has a filter clause is decided
  as the code decides it: by the substring \<open>where\<close> in small letters.
\<close>

definition trailingPredicate :: "string \<Rightarrow> string \<Rightarrow> string \<Rightarrow> string \<Rightarrow> string" where
  "trailingPredicate text typ cursor v =
     text @ (if Contains text ''where'' then '' and '' else '' where '')
       @ cursor @ '' > '' @ (if typ = ''TIMESTAMP'' then [quote] @ v @ [quote] else v)
       @ '' order by '' @ cursor @ '' asc;''"

text \<open>The key of a record: the query identifier and the 1-based position of the row.\<close>

definition recordKey :: "string \<Rightarrow> nat \<Rightarrow> string" where
  "recordKey queryId ordinal = queryId @ ''_record'' @ Itoa (int ordinal)"

section \<open>Example inputs\<close>

text \<open>
  The receiver of the example configuration: basic authentication with an encrypted
  password, and the lifecycle limits 3 minutes, 10 and 10.
\<close>

definition exampleConf :: Config where
  "exampleConf =
     \<lparr>AuthenticationMode = ''BasicAuth'', DBHost = ''localhost'', DBPort = ''3306'',
      Transport = ''tcp'', Username = ''test'', Password = ''uqDpyLNh4Ytfxw=='',
      PasswordType = ''encrypted'', EncryptSecretPath = ''secret.txt'',
      Database = ''employees'', Region = [], AWSCertificatePath = [],
      AllowNativePasswords = True, SetConnMaxLifetime = 3, SetMaxOpenConns = 10,
      SetMaxIdleConns = 10\<rparr>"

text \<open>
  A database that answers the statement \<open>sql\<close> with \<open>rows\<close> and rejects every other
  statement, and a client connected to a database with the answers \<open>db\<close>.
\<close>

definition answers :: "string \<Rightarrow> Rows \<Rightarrow> string \<Rightarrow> err + Rows" where
  "answers sql rows q =
     (if q = sql then Inr rows else Inl ''Error 1064: You have an error in your SQL syntax'')"

definition connected :: "(string \<Rightarrow> err + Rows) \<Rightarrow> mySQLClient" where
  "connected db =
     \<lparr>connStr = FormatDSN
        \<lparr>User = ''test'', Passwd = ''secret'', Net = ''tcp'', Addr = ''localhost:3306'',
         DBName = ''employees'', AllowNative = True, TLSConfig = [],
         AllowCleartextPasswords = False\<rparr>,
      client = Some \<lparr>Query_db = db, ConnMaxLifetime = Minute * 3, MaxOpenConns = 10,
                      MaxIdleConns = 10\<rparr>,
      conf = exampleConf\<rparr>"

text \<open>
  The two queries of the specification's example, the tables they read, and the rows
  with emp_no 4 and 7 that the rewritten second query returns.
\<close>

definition exampleQ1 :: DBQueries where
  "exampleQ1 =
     \<lparr>QueryId = ''Q1'', Query = ''Select * from departments'', IndexColumnName = [],
      IndexColumnType = [], InitialIndexColumnStartValue = []\<rparr>"

definition departments :: Rows where
  "departments =
     \<lparr>Columns = Inr [''dept_no'', ''dept_name''],
      Next = [Inr [Some ''d001'', Some ''Marketing''], Inr [Some ''d002'', Some ''Finance'']],
      Err = None\<rparr>"

definition exampleQ2 :: DBQueries where
  "exampleQ2 =
     \<lparr>QueryId = ''Q2'', Query = ''Select * from dept_manager'', IndexColumnName = ''emp_no'',
      IndexColumnType = ''NUMBER'', InitialIndexColumnStartValue = ''3''\<rparr>"

definition deptManager :: Rows where
  "deptManager =
     \<lparr>Columns = Inr [''emp_no'', ''dept_no''],
      Next = [Inr [Some ''4'', Some ''d001''], Inr [Some ''7'', Some ''d002'']],
      Err = None\<rparr>"

definition exampleSQL :: string where
  "exampleSQL = ''Select * from dept_manager where emp_no > 3 order by emp_no asc;''"

text \<open>
  The same two rows of a table whose first column is nullable; the last row has NULL
  there.
\<close>

definition deptManagerNull :: Rows where
  "deptManagerNull =
     \<lparr>Columns = Inr [''dept_no'', ''emp_no'', ''from_date''],
      Next = [Inr [Some ''d001'', Some ''4'', Some ''1985-01-01''],
              Inr [None, Some ''7'', Some ''1991-10-01'']],
      Err = None\<rparr>"

text \<open>A query that selects another column than its index column, and its answer.\<close>

definition deptNoQuery :: DBQueries where
  "deptNoQuery = exampleQ2\<lparr>Query := ''Select dept_no from dept_manager''\<rparr>"

definition deptNoRows :: Rows where
  "deptNoRows = \<lparr>Columns = Inr [''dept_no''], Next = [Inr [Some ''d001'']], Err = None\<rparr>"

text \<open>
  A query whose text holds the word STATEVALUE, and a query with a filter clause written
  in capitals.
\<close>

definition stateValueQuery :: DBQueries where
  "stateValueQuery = exampleQ2\<lparr>Query := ''Select emp_no, STATEVALUE from dept_manager''\<rparr>"

definition upperWhereQuery :: DBQueries where
  "upperWhereQuery = exampleQ2\<lparr>Query := ''SELECT * FROM dept_manager WHERE emp_no < 100''\<rparr>"

text \<open>A query without filter clause on a table whose name ends in \<open>where\<close>.\<close>

definition somewhereQuery :: DBQueries where
  "somewhereQuery = exampleQ2\<lparr>Query := ''select * from somewhere''\<rparr>"

text \<open>The first query with its text left out.\<close>

definition blankQuery :: DBQueries where
  "blankQuery = exampleQ1\<lparr>Query := []\<rparr>"

text \<open>The second query with its index column type left out, and with the type DATE.\<close>

definition untypedQuery :: DBQueries where
  "untypedQuery = exampleQ2\<lparr>IndexColumnType := []\<rparr>"

definition dateQuery :: DBQueries where
  "dateQuery = exampleQ2\<lparr>IndexColumnType := ''DATE''\<rparr>"

text \<open>A table of three columns with one row whose second column is NULL.\<close>

definition people :: Rows where
  "people =
     \<lparr>Columns = Inr [''id'', ''nickname'', ''name''],
      Next = [Inr [Some ''1'', None, Some ''Ann'']],
      Err = None\<rparr>"

text \<open>
  A driver and a database/sql whose \<^verbatim>\<open>Open\<close> succeeds with a fresh handle; the key file
  is missing and decryption fails.
\<close>

definition freshDB :: DB where
  "freshDB =
     \<lparr>Query_db = answers ''Select * from people'' people, ConnMaxLifetime = 0,
      MaxOpenConns = 0, MaxIdleConns = 0\<rparr>"

definition noSecret :: externals where
  "noSecret =
     \<lparr>readMySecret = (\<lambda>cf. ([], Some ''open secret.txt: no such file or directory'')),
      Encrypt = (\<lambda>text secret. ([], Some ''crypto/aes: invalid key size 0'')),
      Decrypt = (\<lambda>text secret. ([], Some ''crypto/aes: invalid key size 0'')),
      LoadDefaultConfig = ([], None),
      BuildAuthToken = (\<lambda>endpoint region user creds. ([], None)),
      ReadFile = (\<lambda>path. ([], None)),
      AppendCertsFromPEM = (\<lambda>pem. True),
      RegisterTLSConfig = (\<lambda>key pool. None),
      Open = (\<lambda>driver d. Inr freshDB)\<rparr>"

text \<open>The same with a readable key file and a decryption that yields the password.\<close>

definition withSecret :: externals where
  "withSecret =
     noSecret\<lparr>readMySecret := (\<lambda>cf. (''0123456789abcdef01234567'', None)),
       Encrypt := (\<lambda>text secret. (''uqDpyLNh4Ytfxw=='', None)),
       Decrypt := (\<lambda>text secret. (''otel'', None))\<rparr>"

definition clientOf :: "Config \<Rightarrow> mySQLClient" where
  "clientOf cf = fst (newMySQLClient noSecret cf)"

section \<open>Properties of the string functions\<close>

lemma Replace_absent:
  "old \<noteq> [] \<Longrightarrow> \<not> Contains s old \<Longrightarrow> Replace s old new = s"
  by (induction s) (simp_all add: Replace.simps)

lemma prefix_sep:
  assumes "c \<notin> set old"
  shows "prefix old (s @ c # t) \<longleftrightarrow> prefix old s"
proof
  assume "prefix old (s @ c # t)"
  then have "prefix old s \<or> (\<exists>us. old = s @ us \<and> prefix us (c # t))"
    by (simp add: prefix_append)
  then show "prefix old s"
  proof
    assume "prefix old s" then show ?thesis .
  next
    assume "\<exists>us. old = s @ us \<and> prefix us (c # t)"
    then obtain us where us: "old = s @ us" "prefix us (c # t)" by blast
    show ?thesis
    proof (cases us)
      case Nil with us show ?thesis by simp
    next
      case (Cons u us')
      with us have "u = c" by simp
      with Cons us assms show ?thesis by simp
    qed
  qed
qed simp

lemma Replace_sep:
  assumes "c \<notin> set old" and "old \<noteq> []"
  shows "Replace (s @ c # t) old new = Replace s old new @ c # Replace t old new"
proof (induction "length s" arbitrary: s rule: less_induct)
  case less
  have "\<not> prefix old (c # t)" using assms by (cases old) auto
  with assms have ne: "old \<noteq> []" "\<not> prefix old (c # t)" by blast+
  show ?case
  proof (cases s)
    case Nil
    with ne show ?thesis by (simp add: Replace.simps)
  next
    case (Cons x xs)
    show ?thesis
    proof (cases "prefix old s")
      case True
      then have le: "length old \<le> length s" by (rule prefix_length_le)
      have "length (drop (length old) s) < length s" using ne Cons by simp
      from less[OF this] have IH: "Replace (drop (length old) s @ c # t) old new =
          Replace (drop (length old) s) old new @ c # Replace t old new" .
      have "Replace (s @ c # t) old new = new @ Replace (drop (length old) (s @ c # t)) old new"
        using True ne Cons prefix_sep[OF assms(1), of s t] by (simp add: Replace.simps)
      moreover have "drop (length old) (s @ c # t) = drop (length old) s @ c # t" using le by simp
      moreover have "Replace s old new = new @ Replace (drop (length old) s) old new"
        using True ne Cons by (simp add: Replace.simps)
      ultimately show ?thesis using IH by simp
    next
      case False
      have "length xs < length s" using Cons by simp
      from less[OF this] have IH: "Replace (xs @ c # t) old new = Replace xs old new @ c # Replace t old new" .
      have "\<not> prefix old (s @ c # t)" using False prefix_sep[OF assms(1), of s t] by simp
      then show ?thesis using False ne Cons IH by (simp add: Replace.simps)
    qed
  qed
qed

lemma Replace_NUMBER:
  assumes "\<not> Contains Q ''STATEVALUE''" "\<not> Contains Q ''INDEXCOLUMNNAME''"
    "\<not> Contains v ''INDEXCOLUMNNAME''"
  shows "Replace (Replace (Q @ '' and INDEXCOLUMNNAME > STATEVALUE order by INDEXCOLUMNNAME asc;'')
            ''STATEVALUE'' v) ''INDEXCOLUMNNAME'' col
         = Q @ '' and '' @ col @ '' > '' @ v @ '' order by '' @ col @ '' asc;''"
  using assms by (simp add: Replace_sep Replace_absent Replace.simps)

lemma Replace_NUMBER_where:
  assumes "\<not> Contains Q ''STATEVALUE''" "\<not> Contains Q ''INDEXCOLUMNNAME''"
    "\<not> Contains v ''INDEXCOLUMNNAME''"
  shows "Replace (Replace (Q @ '' where INDEXCOLUMNNAME > STATEVALUE order by INDEXCOLUMNNAME asc;'')
            ''STATEVALUE'' v) ''INDEXCOLUMNNAME'' col
         = Q @ '' where '' @ col @ '' > '' @ v @ '' order by '' @ col @ '' asc;''"
  using assms by (simp add: Replace_sep Replace_absent Replace.simps)

lemma Replace_TIMESTAMP:
  assumes "\<not> Contains Q ''STATEVALUE''" "\<not> Contains Q ''INDEXCOLUMNNAME''"
    "\<not> Contains v ''INDEXCOLUMNNAME''"
  shows "Replace (Replace (Q @ '' and INDEXCOLUMNNAME > '' @ [quote] @ ''STATEVALUE'' @ [quote]
              @ '' order by INDEXCOLUMNNAME asc;'')
            ''STATEVALUE'' v) ''INDEXCOLUMNNAME'' col
         = Q @ '' and '' @ col @ '' > '' @ [quote] @ v @ [quote] @ '' order by '' @ col @ '' asc;''"
  using assms by (simp add: Replace_sep Replace_absent Replace.simps)

lemma Replace_TIMESTAMP_where:
  assumes "\<not> Contains Q ''STATEVALUE''" "\<not> Contains Q ''INDEXCOLUMNNAME''"
    "\<not> Contains v ''INDEXCOLUMNNAME''"
  shows "Replace (Replace (Q @ '' where INDEXCOLUMNNAME > '' @ [quote] @ ''STATEVALUE'' @ [quote]
              @ '' order by INDEXCOLUMNNAME asc;'')
            ''STATEVALUE'' v) ''INDEXCOLUMNNAME'' col
         = Q @ '' where '' @ col @ '' > '' @ [quote] @ v @ [quote] @ '' order by '' @ col @ '' asc;''"
  using assms by (simp add: Replace_sep Replace_absent Replace.simps)

lemma TrimSpace_types: "TrimSpace ''TIMESTAMP'' \<noteq> []" "TrimSpace ''NUMBER'' \<noteq> []"
  by code_simp+

lemma digit_inj: "a < 10 \<Longrightarrow> b < 10 \<Longrightarrow> digit a = digit b \<Longrightarrow> a = b"
proof -
  assume a: "a < 10" and b: "b < 10" and eq: "digit a = digit b"
  from eq have "(of_char (digit a) :: nat) = of_char (digit b)" by simp
  with a b show "a = b" by (simp add: digit_def)
qed

lemma digits_nonempty: "digits n \<noteq> []"
  by (subst digits.simps) simp

lemma digits_inj: "digits n = digits m \<Longrightarrow> n = m"
proof (induction n arbitrary: m rule: less_induct)
  case (less n)
  show ?case
  proof (cases "n < 10")
    case True
    show ?thesis
    proof (cases "m < 10")
      case m: True
      from less.prems True m have "digit n = digit m"
        by (simp add: digits.simps[of n] digits.simps[of m])
      with True m show ?thesis by (rule digit_inj)
    next
      case False
      with less.prems True have "[digit n] = digits (m div 10) @ [digit (m mod 10)]"
        by (simp add: digits.simps[of n] digits.simps[of m])
      then show ?thesis using digits_nonempty[of "m div 10"] by simp
    qed
  next
    case False
    show ?thesis
    proof (cases "m < 10")
      case True
      with less.prems False have "digits (n div 10) @ [digit (n mod 10)] = [digit m]"
        by (simp add: digits.simps[of n] digits.simps[of m])
      then show ?thesis using digits_nonempty[of "n div 10"] by simp
    next
      case m: False
      with less.prems False
      have "digits (n div 10) @ [digit (n mod 10)] = digits (m div 10) @ [digit (m mod 10)]"
        by (simp add: digits.simps[of n] digits.simps[of m])
      then have d: "digits (n div 10) = digits (m div 10)" and r: "digit (n mod 10) = digit (m mod 10)"
        by simp_all
      have "n div 10 < n" using False by simp
      from less.IH[OF this d] have "n div 10 = m div 10" .
      moreover from r have "n mod 10 = m mod 10" by (intro digit_inj) simp_all
      ultimately show ?thesis by (metis div_mult_mod_eq)
    qed
  qed
qed

lemma recordKey_inj: "recordKey q i = recordKey q j \<Longrightarrow> i = j"
  by (auto simp: recordKey_def Itoa_def dest: digits_inj)

section \<open>Properties of ExecuteQueryandFetchRecords\<close>

lemma lineLoop_line:
  "snd (lineLoop vs (v, line)) = line @ map the (filter (\<lambda>col. col \<noteq> None) vs)"
  by (induction vs arbitrary: v line) (auto split: option.splits)

text \<open>A line has at most one value per column, so the loop over a line stays within the columns.\<close>

lemma rowsLoop_line_length:
  "rowsLoop n rs lines = Inr ls \<Longrightarrow> (\<And>l. l \<in> set lines \<Longrightarrow> length l \<le> n)
   \<Longrightarrow> l \<in> set ls \<Longrightarrow> length l \<le> n"
proof (induction rs arbitrary: lines)
  case Nil
  then show ?case by simp
next
  case (Cons r rs)
  from Cons.prems(1) obtain vs where vs: "Scan n r = Inr vs"
    "rowsLoop n rs (lines @ [snd (lineLoop vs ([], []))]) = Inr ls"
    by (auto split: sum.splits)
  from vs(1) have "length vs = n" by (auto simp: Scan_def split: sum.splits if_splits)
  then have "length (snd (lineLoop vs ([], []))) \<le> n"
    by (simp add: lineLoop_line) (metis length_filter_le)
  with Cons.prems(2) have "\<And>l. l \<in> set (lines @ [snd (lineLoop vs ([], []))]) \<Longrightarrow> length l \<le> n"
    by auto
  from Cons.IH[OF vs(2) this Cons.prems(3)] show ?case .
qed

lemma update_fresh: "k \<notin> fst ` set al \<Longrightarrow> AList.update k v al = al @ [(k, v)]"
  by (induction al) auto

lemma linesLoop_Cons:
  "linesLoop js columns queryid j (l # lines) (obj, recs, li0) =
     (case Marshal js (setFields columns l obj) of
        Inl e \<Rightarrow> Inl e
      | Inr d \<Rightarrow>
          linesLoop js columns queryid (Suc j) lines
            (setFields columns l obj, AList.update (recordKey queryid (Suc j)) d recs,
             recordKey queryid (Suc j)))"
  by (simp add: Let_def recordKey_def add.commute split: sum.splits)

lemma linesLoop_keys:
  assumes total: "\<And>obj. \<exists>d. Marshal js obj = Inr d"
    and fresh: "\<And>i. j < i \<Longrightarrow> recordKey queryid i \<notin> fst ` set recs"
  shows "\<exists>obj' recs' li. linesLoop js columns queryid j lines (obj, recs, li0) = Inr (obj', recs', li)
           \<and> map fst recs' = map fst recs @ map (recordKey queryid) [Suc j..<Suc (j + length lines)]"
  using fresh
proof (induction lines arbitrary: j obj recs li0)
  case Nil
  then show ?case by simp
next
  case (Cons l lines)
  obtain d where d: "Marshal js (setFields columns l obj) = Inr d" using total by blast
  let ?recs = "AList.update (recordKey queryid (Suc j)) d recs"
  have upd: "?recs = recs @ [(recordKey queryid (Suc j), d)]"
    using Cons.prems[of "Suc j"] by (simp add: update_fresh)
  have "\<And>i. Suc j < i \<Longrightarrow> recordKey queryid i \<notin> fst ` set ?recs"
    using Cons.prems upd by (auto dest: recordKey_inj)
  from Cons.IH[OF this]
  obtain obj' recs' li where
    "linesLoop js columns queryid (Suc j) lines (setFields columns l obj, ?recs, recordKey queryid (Suc j))
       = Inr (obj', recs', li)"
    "map fst recs' = map fst ?recs @ map (recordKey queryid) [Suc (Suc j)..<Suc (Suc j + length lines)]"
    by blast
  then show ?case using d upd
    by (simp add: linesLoop_Cons upt_conv_Cons del: upt_Suc linesLoop.simps(2))
qed

lemma rowsLoop_all:
  assumes "\<And>r. r \<in> set rs \<Longrightarrow> \<exists>vs. r = Inr vs \<and> length vs = n"
  shows "\<exists>ls. rowsLoop n rs lines = Inr (lines @ ls) \<and> length ls = length rs"
  using assms
proof (induction rs arbitrary: lines)
  case Nil
  then show ?case by simp
next
  case (Cons r rs)
  from Cons.prems[of r] obtain vs where r: "r = Inr vs" "length vs = n" by auto
  from Cons.IH[of "lines @ [snd (lineLoop vs ([], []))]"] Cons.prems
  obtain ls where "rowsLoop n rs (lines @ [snd (lineLoop vs ([], []))]) =
      Inr ((lines @ [snd (lineLoop vs ([], []))]) @ ls)" "length ls = length rs"
    by auto
  with r show ?case by (simp add: Scan_def)
qed

lemma ExecuteQueryandFetchRecords_keys:
  assumes "client c = Some db" and "Query_db db query = Inr rows"
    and "Columns rows = Inr columns" and "Err rows = None"
    and "\<And>r. r \<in> set (Next rows) \<Longrightarrow> \<exists>vs. r = Inr vs \<and> length vs = length columns"
    and "\<And>obj. \<exists>d. Marshal js obj = Inr d"
  shows "\<exists>recs li. ExecuteQueryandFetchRecords js c query queryid = Returned ((Some recs, li, None), [])
           \<and> map fst recs = map (recordKey queryid) [1..<Suc (length (Next rows))]"
proof -
  from rowsLoop_all[of "Next rows" "length columns" "[]"] assms(5)
  obtain ls where ls: "rowsLoop (length columns) (Next rows) [] = Inr ls" "length ls = length (Next rows)"
    by auto
  from linesLoop_keys[OF assms(6), of 0 queryid "[]" columns ls "[]" "[]"]
  obtain obj' recs' li where
    "linesLoop js columns queryid 0 ls ([], [], []) = Inr (obj', recs', li)"
    "map fst recs' = map (recordKey queryid) [Suc 0..<Suc (length ls)]"
    by auto
  with ls assms(1-4) show ?thesis
    by (simp add: ExecuteQueryandFetchRecords_def)
qed

lemma copyRecords_distinct:
  "distinct (map fst r) \<Longrightarrow> copyRecords (Some r) = r"
proof -
  have "\<And>acc. distinct (map fst (acc @ r)) \<Longrightarrow>
      foldl (\<lambda>m (key, element). AList.update key element m) acc r = acc @ r"
  proof (induction r)
    case Nil
    then show ?case by simp
  next
    case (Cons p r)
    obtain k v where p: "p = (k, v)" by (cases p)
    from Cons.prems p have "AList.update k v acc = acc @ [(k, v)]"
      by (intro update_fresh) auto
    with Cons.IH[of "acc @ [(k, v)]"] Cons.prems p show ?case by simp
  qed
  from this[of "[]"] show "distinct (map fst r) \<Longrightarrow> copyRecords (Some r) = r"
    by (simp add: copyRecords_def)
qed

lemma recordKeys_distinct: "distinct (map (recordKey q) [i..<j])"
  by (auto simp: distinct_map inj_on_def dest: recordKey_inj)

lemma lineLoop_no_null: "snd (lineLoop (map Some vs) (v, line)) = line @ vs"
  by (simp add: lineLoop_line comp_def)

lemma rowsLoop_no_null:
  assumes "\<And>vs. vs \<in> set vss \<Longrightarrow> length vs = n"
  shows "rowsLoop n (map (\<lambda>vs. Inr (map Some vs)) vss) lines = Inr (lines @ vss)"
  using assms
proof (induction vss arbitrary: lines)
  case Nil
  then show ?case by simp
next
  case (Cons vs vss)
  from Cons.prems have "length vs = n" by simp
  with Cons show ?case by (simp add: Scan_def lineLoop_no_null)
qed

lemma foldl_update_map_of:
  "distinct (map fst kvs) \<Longrightarrow>
   map_of (foldl (\<lambda>obj (col, v). AList.update col v obj) obj kvs) = map_of obj ++ map_of kvs"
proof (induction kvs arbitrary: obj)
  case Nil
  then show ?case by simp
next
  case (Cons kv kvs)
  obtain k v where kv: "kv = (k, v)" by (cases kv)
  from Cons.prems kv have fresh: "k \<notin> dom (map_of kvs)"
    by (auto simp: dom_map_of_conv_image_fst)
  from Cons.prems have "distinct (map fst kvs)" by simp
  from Cons.IH[OF this, of "AList.update k v obj"] kv fresh show ?case
    by (auto simp add: update_conv' map_add_def fun_eq_iff split: option.splits)
qed

lemma setFields_field:
  assumes "distinct columns" and "length l = length columns" and "i < length columns"
  shows "map_of (setFields columns l obj) (columns ! i) = Some (l ! i)"
proof -
  have "distinct (map fst (zip columns l))" using assms by simp
  then have "map_of (setFields columns l obj) = map_of obj ++ map_of (zip columns l)"
    unfolding setFields_def by (rule foldl_update_map_of)
  moreover have "map_of (zip columns l) (columns ! i) = Some (l ! i)"
    using assms by (intro map_of_zip_nth) simp_all
  ultimately show ?thesis by (simp add: map_add_def)
qed

lemma linesLoop_last:
  assumes total: "\<And>obj. \<exists>d. Marshal js obj = Inr d"
  shows "\<exists>obj' recs' d.
           linesLoop js columns queryid j (lines @ [l]) (obj, recs, li0)
             = Inr (setFields columns l obj', recs', recordKey queryid (Suc (j + length lines)))
           \<and> Marshal js (setFields columns l obj') = Inr d
           \<and> map_of recs' (recordKey queryid (Suc (j + length lines))) = Some d"
proof (induction lines arbitrary: j obj recs li0)
  case Nil
  obtain d where "Marshal js (setFields columns l obj) = Inr d" using total by blast
  then show ?case
    by (auto simp add: linesLoop_Cons update_conv' simp del: linesLoop.simps(2))
next
  case (Cons x lines)
  obtain d where d: "Marshal js (setFields columns x obj) = Inr d" using total by blast
  from Cons[of "Suc j" "setFields columns x obj"
      "AList.update (recordKey queryid (Suc j)) d recs" "recordKey queryid (Suc j)"] d
  show ?case
    by (simp add: linesLoop_Cons del: linesLoop.simps(2))
qed

lemma ExecuteQueryandFetchRecords_last:
  assumes "client c = Some db" and "Query_db db query = Inr rows"
    and "Columns rows = Inr columns" and "Err rows = None"
    and rows: "Next rows = map (\<lambda>vs. Inr (map Some vs)) (vss @ [vs])"
    and len: "\<And>x. x \<in> set (vss @ [vs]) \<Longrightarrow> length x = length columns"
    and total: "\<And>obj. \<exists>d. Marshal js obj = Inr d"
  shows "\<exists>recs li obj d.
           ExecuteQueryandFetchRecords js c query queryid = Returned ((Some recs, li, None), [])
           \<and> map_of recs li = Some d \<and> Marshal js (setFields columns vs obj) = Inr d
           \<and> distinct (map fst recs)"
proof -
  have scanned: "rowsLoop (length columns) (Next rows) [] = Inr (vss @ [vs])"
    using rowsLoop_no_null[of "vss @ [vs]" "length columns" "[]"] len rows by simp
  from linesLoop_last[OF total, of columns queryid 0 vss vs "[]" "[]" "[]"]
  obtain obj recs d where l:
    "linesLoop js columns queryid 0 (vss @ [vs]) ([], [], [])
       = Inr (setFields columns vs obj, recs, recordKey queryid (Suc (length vss)))"
    "Marshal js (setFields columns vs obj) = Inr d"
    "map_of recs (recordKey queryid (Suc (length vss))) = Some d"
    by auto
  have e: "ExecuteQueryandFetchRecords js c query queryid
      = Returned ((Some recs, recordKey queryid (Suc (length vss)), None), [])"
    using assms(1-4) scanned l(1) by (simp add: ExecuteQueryandFetchRecords_def)
  have "\<And>r. r \<in> set (Next rows) \<Longrightarrow> \<exists>vs. r = Inr vs \<and> length vs = length columns"
    using rows len by auto
  from ExecuteQueryandFetchRecords_keys[OF assms(1-4) this total, of queryid]
  obtain recs' li' where
    "ExecuteQueryandFetchRecords js c query queryid = Returned ((Some recs', li', None), [])"
    "map fst recs' = map (recordKey queryid) [1..<Suc (length (Next rows))]"
    by blast
  with e have "map fst recs = map (recordKey queryid) [1..<Suc (length (Next rows))]" by simp
  then have "distinct (map fst recs)" by (simp only: recordKeys_distinct)
  with e l show ?thesis by blast
qed

lemma ExecuteQueryandFetchRecords_nil_error:
  "ExecuteQueryandFetchRecords js c query queryid = Returned ((recs, lastIndex, e), es)
   \<Longrightarrow> e = None"
  by (auto simp: ExecuteQueryandFetchRecords_def split: option.splits sum.splits prod.splits)

lemma ExecuteQueryandFetchRecords_failure_logged:
  "ExecuteQueryandFetchRecords js c query queryid = Returned ((None, lastIndex, e), es)
   \<Longrightarrow> lastIndex = [] \<and> (\<exists>msg fs. es = [Entry ErrorLevel msg fs])"
  by (auto simp: ExecuteQueryandFetchRecords_def split: option.splits sum.splits prod.splits)

lemma foldl_update_map_of_rev:
  "map_of (foldl (\<lambda>obj (col, v). AList.update col v obj) obj kvs) = map_of obj ++ map_of (rev kvs)"
proof (induction kvs arbitrary: obj)
  case Nil
  then show ?case by simp
next
  case (Cons kv kvs)
  obtain k v where kv: "kv = (k, v)" by (cases kv)
  have "map_of (foldl (\<lambda>obj (col, v). AList.update col v obj) obj (kv # kvs))
      = map_of (AList.update k v obj) ++ map_of (rev kvs)"
    using Cons[of "AList.update k v obj"] kv by simp
  also have "\<dots> = map_of obj ++ map_of (rev (kv # kvs))"
    using kv by (auto simp: update_conv' map_add_def fun_eq_iff map_of_append split: option.splits)
  finally show ?case .
qed

lemma zip_keys: "length vs = length columns \<Longrightarrow> fst ` set (zip columns vs) = set columns"
  by (metis map_fst_zip set_map)

lemma setFields_map:
  assumes "length vs = length columns" and "dom (map_of obj) \<subseteq> set columns"
  shows "map_of (setFields columns vs obj) = map_of (rev (zip columns vs))"
proof -
  have "dom (map_of (rev (zip columns vs))) = set columns"
    using assms(1) by (simp add: dom_map_of_conv_image_fst zip_keys)
  with assms(2) have "map_of obj ++ map_of (rev (zip columns vs)) = map_of (rev (zip columns vs))"
    by (auto simp: map_add_def fun_eq_iff split: option.splits)
  then show ?thesis by (simp add: setFields_def foldl_update_map_of_rev)
qed

lemma setFields_dom:
  assumes "length vs = length columns" and "dom (map_of obj) \<subseteq> set columns"
  shows "dom (map_of (setFields columns vs obj)) \<subseteq> set columns"
  using assms by (simp add: setFields_map dom_map_of_conv_image_fst zip_keys)

lemma objects_dom:
  assumes "\<And>vs. vs \<in> set vss \<Longrightarrow> length vs = length columns"
  shows "dom (map_of (foldl (\<lambda>obj l. setFields columns l obj) [] vss)) \<subseteq> set columns"
  using assms by (induction vss rule: rev_induct) (simp_all add: setFields_dom)

lemma objects_row:
  assumes "\<And>vs. vs \<in> set vss \<Longrightarrow> length vs = length columns" and "i < length vss"
  shows "map_of (foldl (\<lambda>obj l. setFields columns l obj) [] (take (Suc i) vss))
           = map_of (rev (zip columns (vss ! i)))"
proof -
  have t: "take (Suc i) vss = take i vss @ [vss ! i]"
    using assms(2) by (simp add: take_Suc_conv_app_nth)
  have "\<And>vs. vs \<in> set (take i vss) \<Longrightarrow> length vs = length columns"
    using assms(1) by (auto dest: in_set_takeD)
  then have "dom (map_of (foldl (\<lambda>obj l. setFields columns l obj) [] (take i vss))) \<subseteq> set columns"
    by (rule objects_dom)
  moreover have "length (vss ! i) = length columns" using assms by simp
  ultimately show ?thesis by (simp add: t setFields_map)
qed

lemma linesLoop_records:
  assumes enc: "\<And>obj. Marshal js obj = Inr (enc obj)"
    and fresh: "\<And>i. j < i \<Longrightarrow> recordKey queryid i \<notin> fst ` set recs"
  shows "\<exists>obj' li. linesLoop js columns queryid j lines (obj, recs, li0) =
           Inr (obj',
                recs @ map (\<lambda>i. (recordKey queryid (Suc (j + i)),
                                enc (foldl (\<lambda>obj l. setFields columns l obj) obj (take (Suc i) lines))))
                         [0..<length lines],
                li)"
  using fresh
proof (induction lines arbitrary: j obj recs li0)
  case Nil
  then show ?case by simp
next
  case (Cons l lines)
  let ?obj = "setFields columns l obj"
  let ?recs = "AList.update (recordKey queryid (Suc j)) (enc ?obj) recs"
  have upd: "?recs = recs @ [(recordKey queryid (Suc j), enc ?obj)]"
    using Cons.prems[of "Suc j"] by (simp add: update_fresh)
  have "\<And>i. Suc j < i \<Longrightarrow> recordKey queryid i \<notin> fst ` set ?recs"
    using Cons.prems upd by (auto dest: recordKey_inj)
  from Cons.IH[OF this]
  obtain obj' li where
    "linesLoop js columns queryid (Suc j) lines (?obj, ?recs, recordKey queryid (Suc j))
       = Inr (obj',
              ?recs @ map (\<lambda>i. (recordKey queryid (Suc (Suc j + i)),
                                enc (foldl (\<lambda>obj l. setFields columns l obj) ?obj (take (Suc i) lines))))
                       [0..<length lines],
              li)"
    by blast
  moreover have "[0..<length (l # lines)] = 0 # map Suc [0..<length lines]"
    by (simp add: upt_conv_Cons map_Suc_upt del: upt_Suc)
  ultimately show ?case using upd
    by (simp add: linesLoop_Cons enc comp_def del: linesLoop.simps(2) upt_Suc)
qed

lemma ExecuteQueryandFetchRecords_records:
  assumes "client c = Some db" and "Query_db db query = Inr rows"
    and "Columns rows = Inr columns" and "Err rows = None"
    and rows: "Next rows = map (\<lambda>vs. Inr (map Some vs)) vss"
    and len: "\<And>vs. vs \<in> set vss \<Longrightarrow> length vs = length columns"
    and enc: "\<And>obj. Marshal js obj = Inr (enc obj)"
  shows "\<exists>li. ExecuteQueryandFetchRecords js c query queryid =
           Returned ((Some (map (\<lambda>i. (recordKey queryid (Suc i),
                                     enc (foldl (\<lambda>obj l. setFields columns l obj) []
                                            (take (Suc i) vss))))
                              [0..<length vss]), li, None), [])"
proof -
  have scanned: "rowsLoop (length columns) (Next rows) [] = Inr vss"
    using rowsLoop_no_null[of vss "length columns" "[]"] len rows by simp
  from linesLoop_records[of js enc 0 queryid "[]" columns vss "[]" "[]", OF enc]
  obtain obj' li where
    "linesLoop js columns queryid 0 vss ([], [], []) =
       Inr (obj',
            map (\<lambda>i. (recordKey queryid (Suc i),
                       enc (foldl (\<lambda>obj l. setFields columns l obj) [] (take (Suc i) vss))))
                [0..<length vss], li)"
    by auto
  with assms(1-4) scanned show ?thesis
    by (simp add: ExecuteQueryandFetchRecords_def)
qed

text \<open>
  C5. Every column value of a fetched row should appear under its own column name, a
  NULL as the string \<open>''NULL''\<close>. On the row \<open>(1, NULL, Ann)\<close> of the columns id, nickname
  and name the code gives the record \<open>{id: 1, nickname: Ann}\<close>: the NULL is dropped, no
  sentinel is stored, the value of name stands under nickname, and name is missing.
\<close>

theorem ExecuteQueryandFetchRecords_drops_null:
  "ExecuteQueryandFetchRecords objectCodec
     (connected (answers ''Select * from people'' people)) ''Select * from people'' ''Q1''
   = Returned
       ((Some [(''Q1_record1'', [(''id'', ''1''), (''nickname'', ''Ann'')])],
         ''Q1_record1'', None), [])"
  by code_simp

section \<open>Properties of newMySQLClient\<close>

text \<open>
  C8. newMySQLClient always returns a client: it has no error result. With the password
  type \<open>encrypted\<close> (and an authentication mode other than IAMRDSAuth) the password of
  the connection string is whatever text Decrypt returned for the configured password and
  whatever secret readMySecret returned, error or not; an error of either call is logged
  and nothing else is done about it.
\<close>

theorem newMySQLClient_encrypted:
  assumes "PasswordType cf = ''encrypted''" and "AuthenticationMode cf \<noteq> ''IAMRDSAuth''"
  shows "fst (newMySQLClient ext cf) =
           \<lparr>connStr = FormatDSN
              \<lparr>User = Username cf,
               Passwd = fst (Decrypt ext (Password cf) (fst (readMySecret ext cf))),
               Net = Transport cf, Addr = DBHost cf @ '':'' @ DBPort cf, DBName = Database cf,
               AllowNative = AllowNativePasswords cf, TLSConfig = [],
               AllowCleartextPasswords = False\<rparr>,
            client = None, conf = cf\<rparr>
       \<and> snd (newMySQLClient ext cf) =
           logIf (snd (readMySecret ext cf)) ''error in reading encryption secret from file''
           @ logIf (snd (Decrypt ext (Password cf) (fst (readMySecret ext cf))))
               ''error decrypting your encrypted text: ''"
  using assms by (simp add: newMySQLClient_def Let_def split: prod.splits)

theorem newMySQLClient_encrypted_witness:
  "fst (newMySQLClient withSecret exampleConf) =
     \<lparr>connStr = FormatDSN
        \<lparr>User = ''test'', Passwd = ''otel'', Net = ''tcp'', Addr = ''localhost:3306'',
         DBName = ''employees'', AllowNative = True, TLSConfig = [],
         AllowCleartextPasswords = False\<rparr>,
      client = None, conf = exampleConf\<rparr>
   \<and> snd (newMySQLClient withSecret exampleConf) = []"
proof -
  have h: "PasswordType exampleConf = ''encrypted''"
    "AuthenticationMode exampleConf \<noteq> ''IAMRDSAuth''"
    by (simp_all add: exampleConf_def)
  from newMySQLClient_encrypted[OF h, of withSecret]
  show ?thesis by (simp add: withSecret_def noSecret_def exampleConf_def logIf_def)
qed

text \<open>
  With a missing key file and a decryption that fails and returns the empty string, the
  client is built all the same, with the empty password.
\<close>

theorem newMySQLClient_proceeds_without_secret:
  "newMySQLClient noSecret exampleConf =
     (\<lparr>connStr = FormatDSN
         \<lparr>User = ''test'', Passwd = [], Net = ''tcp'', Addr = ''localhost:3306'',
          DBName = ''employees'', AllowNative = True, TLSConfig = [],
          AllowCleartextPasswords = False\<rparr>,
       client = None, conf = exampleConf\<rparr>,
      [Entry ErrorLevel ''error in reading encryption secret from file''
         [(''error'', ''open secret.txt: no such file or directory'')],
       Entry ErrorLevel ''error decrypting your encrypted text: ''
         [(''error'', ''crypto/aes: invalid key size 0'')]])"
  by (simp add: newMySQLClient_def noSecret_def exampleConf_def logIf_def Let_def)

section \<open>Properties of Connect\<close>

lemma Connect_limits:
  assumes "Open ext ''mysql'' (connStr c) = Inr db"
  shows "\<exists>db'. client (fst (fst (Connect ext c))) = Some db'
           \<and> (ConnMaxLifetime db', MaxOpenConns db', MaxIdleConns db') =
               (if SetConnMaxLifetime (conf c) \<noteq> 0
                then (Minute * word_of_int (SetConnMaxLifetime (conf c)),
                      SetMaxOpenConns (conf c), SetMaxIdleConns (conf c))
                else (Minute * 3, 5, 5))"
  using assms by (simp add: Connect_def Let_def)

text \<open>
  C9. Each of the three limits should be defaulted by its own configured value. With the
  lifetime unset and 10 configured for both the open and the idle connections, Connect
  sets 5 and 5; with the lifetime set to 3 minutes and the two others unset, it passes 0
  and 0 on instead of 5 and 5. All three conditions test the configured lifetime.
\<close>

theorem Connect_limits_follow_lifetime:
  "map_option (\<lambda>db. (ConnMaxLifetime db, MaxOpenConns db, MaxIdleConns db))
     (client (fst (fst (Connect noSecret
        (clientOf (exampleConf\<lparr>SetConnMaxLifetime := 0\<rparr>))))))
     = Some (Minute * 3, 5, 5)
   \<and> map_option (\<lambda>db. (ConnMaxLifetime db, MaxOpenConns db, MaxIdleConns db))
     (client (fst (fst (Connect noSecret
        (clientOf (exampleConf\<lparr>SetMaxOpenConns := 0, SetMaxIdleConns := 0\<rparr>))))))
     = Some (Minute * 3, 0, 0)"
  by (simp add: Connect_def clientOf_def newMySQLClient_def noSecret_def exampleConf_def Let_def)

section \<open>Properties of getRecords\<close>

lemma checkQuery_empty:
  "TrimSpace (Query q) = [] \<Longrightarrow>
   checkQuery q = Inl [Entry ErrorLevel ''Query is empty, check collector config file for:''
                         [queryIdField (QueryId q)]]"
  by (simp add: checkQuery_def)

lemma checkQuery_snapshot:
  "TrimSpace (Query q) \<noteq> [] \<Longrightarrow> TrimSpace (IndexColumnName q) = [] \<Longrightarrow>
   checkQuery q = Inr (q, [Entry InfoLevel
      ''IndexColumnName missing from collector config file, so fetching all records for:''
      [queryIdField (QueryId q)]])"
  by (simp add: checkQuery_def)

lemma checkQuery_rejected:
  assumes "TrimSpace (Query q) \<noteq> []" "TrimSpace (IndexColumnName q) \<noteq> []"
    and "IndexColumnType q \<noteq> ''TIMESTAMP''" "IndexColumnType q \<noteq> ''NUMBER''"
  shows "\<exists>e1 e2. checkQuery q = Inl [e1, e2] \<and> isError e1 \<and> isError e2"
  using assms by (simp add: checkQuery_def)

lemma checkQuery_incremental:
  assumes "TrimSpace (Query q) \<noteq> []" "TrimSpace (IndexColumnName q) \<noteq> []"
    and "IndexColumnType q = ''TIMESTAMP'' \<or> IndexColumnType q = ''NUMBER''"
  shows "checkQuery q =
     Inr (q\<lparr>Query := Query q @ (if Contains (Query q) ''where'' then '' and '' else '' where '')
              @ ''INDEXCOLUMNNAME > ''
              @ (if IndexColumnType q = ''TIMESTAMP'' then [quote] @ ''STATEVALUE'' @ [quote]
                 else ''STATEVALUE'')
              @ '' order by INDEXCOLUMNNAME asc;''\<rparr>,
          [Entry InfoLevel ''IndexColumnName specified, fetching records incrementally for:''
             [queryIdField (QueryId q)]])"
  using assms TrimSpace_types by (auto simp add: checkQuery_def)

lemma GetState_Query [simp]: "GetState (q\<lparr>Query := t\<rparr>) st = GetState q st"
  by (simp add: GetState_def split: option.splits)

lemma fetchIncremental_calls:
  "take 2 (calls (fetchIncremental js c q st es)) =
     [CallGetState (QueryId q),
      CallQuery (Replace (Replace (Query q) ''STATEVALUE'' (GetState q st))
                   ''INDEXCOLUMNNAME'' (IndexColumnName q))]"
  by (simp add: fetchIncremental_def Let_def
      split: outcome.splits option.splits sum.splits prod.splits jvalue.splits)

lemma fetchIncremental_dbquery:
  "dbquery_after (fetchIncremental js c q st es) =
     q\<lparr>Query := Replace (Replace (Query q) ''STATEVALUE'' (GetState q st))
                   ''INDEXCOLUMNNAME'' (IndexColumnName q)\<rparr>"
  by (simp add: fetchIncremental_def Let_def
      split: outcome.splits option.splits sum.splits prod.splits jvalue.splits)

lemma noRecords_copy: "noRecords r \<Longrightarrow> copyRecords r = []"
  by (auto simp: noRecords_def copyRecords_def split: option.splits)

lemma copyRecords_nonempty: "\<not> noRecords r \<Longrightarrow> copyRecords r \<noteq> []"
proof -
  have rev: "\<And>xs acc. xs \<noteq> [] \<or> acc \<noteq> [] \<Longrightarrow>
      foldl (\<lambda>m (key, element). AList.update key element m) acc xs \<noteq> ([] :: (string \<times> 'a) list)"
  proof -
    fix xs :: "(string \<times> 'a) list" and acc
    show "xs \<noteq> [] \<or> acc \<noteq> [] \<Longrightarrow>
      foldl (\<lambda>m (key, element). AList.update key element m) acc xs \<noteq> []"
      by (induction xs arbitrary: acc) (auto split: prod.splits)
  qed
  assume "\<not> noRecords r"
  then show ?thesis
    using rev by (auto simp: noRecords_def copyRecords_def split: option.splits)
qed

lemma fetchAll_frame:
  "calls (fetchAll js c q st es) = [CallQuery (Query q)]
   \<and> state_after (fetchAll js c q st es) = st \<and> dbquery_after (fetchAll js c q st es) = q"
  by (simp add: fetchAll_def split: outcome.splits option.splits prod.splits)

lemma fetchIncremental_saved:
  assumes "ret (fetchIncremental js c q st es) = Returned (Some recs, None)" and "recs \<noteq> []"
  shows "\<exists>v. state_after (fetchIncremental js c q st es) = st(QueryId q \<mapsto> v)
           \<and> calls (fetchIncremental js c q st es) =
               [CallGetState (QueryId q),
                CallQuery (Query (dbquery_after (fetchIncremental js c q st es))),
                CallSaveState (QueryId q) v]"
  using assms
  by (auto simp add: fetchIncremental_def Let_def SaveState_def noRecords_copy
      split: outcome.splits option.splits sum.splits prod.splits jvalue.splits if_splits)

lemma fetchIncremental_unsaved:
  assumes "ret (fetchIncremental js c q st es) = Panicked
           \<or> ret (fetchIncremental js c q st es) = Returned (None, None)
           \<or> ret (fetchIncremental js c q st es) = Returned (Some [], None)"
  shows "state_after (fetchIncremental js c q st es) = st
           \<and> calls (fetchIncremental js c q st es) =
               [CallGetState (QueryId q),
                CallQuery (Query (dbquery_after (fetchIncremental js c q st es)))]"
  using assms
  by (auto simp add: fetchIncremental_def Let_def SaveState_def noRecords_copy copyRecords_nonempty
      split: outcome.splits option.splits sum.splits prod.splits jvalue.splits if_splits)

lemma fetchAll_ret: "ret (fetchAll js c q st' es) = ret (fetchAll js c q st es)"
  by (simp add: fetchAll_def split: outcome.splits option.splits prod.splits)

lemma fetchAll_rows:
  assumes "client c = Some db" and "Query_db db (Query q) = Inr rows"
    and "Columns rows = Inr columns" and "Err rows = None"
    and "\<And>r. r \<in> set (Next rows) \<Longrightarrow> \<exists>vs. r = Inr vs \<and> length vs = length columns"
    and "\<And>obj. \<exists>d. Marshal js obj = Inr d"
  shows "\<exists>recs. ret (fetchAll js c q st es) = Returned (Some recs, None)
           \<and> map fst recs = map (recordKey (QueryId q)) [1..<Suc (length (Next rows))]"
proof -
  from ExecuteQueryandFetchRecords_keys[OF assms, of "QueryId q"]
  obtain recs li where e: "ExecuteQueryandFetchRecords js c (Query q) (QueryId q)
      = Returned ((Some recs, li, None), [])"
    and k: "map fst recs = map (recordKey (QueryId q)) [1..<Suc (length (Next rows))]"
    by blast
  from k have "distinct (map fst recs)" by (simp only: recordKeys_distinct)
  then have "copyRecords (Some recs) = recs" by (rule copyRecords_distinct)
  with e k show ?thesis by (simp add: fetchAll_def)
qed

lemma fetchAll_records:
  assumes "client c = Some db" and "Query_db db (Query q) = Inr rows"
    and "Columns rows = Inr columns" and "Err rows = None"
    and rows: "Next rows = map (\<lambda>vs. Inr (map Some vs)) vss"
    and len: "\<And>vs. vs \<in> set vss \<Longrightarrow> length vs = length columns"
    and enc: "\<And>obj. Marshal js obj = Inr (enc obj)"
  shows "\<exists>objs. length objs = length vss
           \<and> (\<forall>i<length vss. map_of (objs ! i) = map_of (rev (zip columns (vss ! i))))
           \<and> ret (fetchAll js c q st es) =
               Returned (Some (map (\<lambda>i. (recordKey (QueryId q) (Suc i), enc (objs ! i)))
                                 [0..<length vss]), None)"
proof -
  let ?objs = "map (\<lambda>i. foldl (\<lambda>obj l. setFields columns l obj) [] (take (Suc i) vss))
      [0..<length vss]"
  let ?recs = "map (\<lambda>i. (recordKey (QueryId q) (Suc i), enc (?objs ! i))) [0..<length vss]"
  from ExecuteQueryandFetchRecords_records[OF assms, of "QueryId q"]
  obtain li where e: "ExecuteQueryandFetchRecords js c (Query q) (QueryId q) =
      Returned ((Some ?recs, li, None), [])"
    by auto
  have "map fst ?recs = map (recordKey (QueryId q)) (map Suc [0..<length vss])"
    by (simp add: comp_def)
  also have "map Suc [0..<length vss] = [1..<Suc (length vss)]"
    by (simp add: map_Suc_upt del: upt_Suc)
  finally have "distinct (map fst ?recs)" by (simp only: recordKeys_distinct)
  then have "copyRecords (Some ?recs) = ?recs" by (rule copyRecords_distinct)
  with e have r: "ret (fetchAll js c q st es) = Returned (Some ?recs, None)"
    by (simp add: fetchAll_def)
  have "\<forall>i<length vss. map_of (?objs ! i) = map_of (rev (zip columns (vss ! i)))"
    using objects_row[OF len] by simp
  with r show ?thesis by (intro exI[of _ ?objs]) simp
qed

lemma getRecords_cases:
  "(TrimSpace (Query q) = []
      \<and> getRecords js c q st =
          \<lparr>ret = Returned (None, None), dbquery_after = q, state_after = st,
           logged = [Entry ErrorLevel ''Query is empty, check collector config file for:''
                       [queryIdField (QueryId q)]],
           calls = []\<rparr>)
   \<or> (TrimSpace (Query q) \<noteq> [] \<and> TrimSpace (IndexColumnName q) = []
      \<and> (\<exists>es. getRecords js c q st = fetchAll js c q st es))
   \<or> (TrimSpace (Query q) \<noteq> [] \<and> TrimSpace (IndexColumnName q) \<noteq> []
      \<and> IndexColumnType q \<noteq> ''TIMESTAMP'' \<and> IndexColumnType q \<noteq> ''NUMBER''
      \<and> (\<exists>e1 e2. isError e1 \<and> isError e2 \<and> getRecords js c q st =
          \<lparr>ret = Returned (None, None), dbquery_after = q, state_after = st,
           logged = [e1, e2], calls = []\<rparr>))
   \<or> (TrimSpace (Query q) \<noteq> [] \<and> TrimSpace (IndexColumnName q) \<noteq> []
      \<and> (IndexColumnType q = ''TIMESTAMP'' \<or> IndexColumnType q = ''NUMBER'')
      \<and> (\<exists>t es. getRecords js c q st = fetchIncremental js c (q\<lparr>Query := t\<rparr>) st es))"
proof -
  consider (empty) "TrimSpace (Query q) = []"
    | (snapshot) "TrimSpace (Query q) \<noteq> []" "TrimSpace (IndexColumnName q) = []"
    | (rejected) "TrimSpace (Query q) \<noteq> []" "TrimSpace (IndexColumnName q) \<noteq> []"
        "IndexColumnType q \<noteq> ''TIMESTAMP''" "IndexColumnType q \<noteq> ''NUMBER''"
    | (incremental) "TrimSpace (Query q) \<noteq> []" "TrimSpace (IndexColumnName q) \<noteq> []"
        "IndexColumnType q = ''TIMESTAMP'' \<or> IndexColumnType q = ''NUMBER''"
    by blast
  then show ?thesis
  proof cases
    case empty
    then show ?thesis by (simp add: getRecords_def checkQuery_empty)
  next
    case snapshot
    then show ?thesis by (simp add: getRecords_def checkQuery_snapshot) blast
  next
    case rejected
    from checkQuery_rejected[OF this] obtain e1 e2
      where "checkQuery q = Inl [e1, e2]" "isError e1" "isError e2" by blast
    with rejected show ?thesis by (auto simp add: getRecords_def)
  next
    case incremental
    from checkQuery_incremental[OF this] incremental show ?thesis
      by (simp add: getRecords_def) blast
  qed
qed

lemma fetchIncremental_fields:
  "QueryId (dbquery_after (fetchIncremental js c q st es)) = QueryId q
   \<and> IndexColumnName (dbquery_after (fetchIncremental js c q st es)) = IndexColumnName q
   \<and> IndexColumnType (dbquery_after (fetchIncremental js c q st es)) = IndexColumnType q
   \<and> InitialIndexColumnStartValue (dbquery_after (fetchIncremental js c q st es))
       = InitialIndexColumnStartValue q"
  by (simp add: fetchIncremental_dbquery)

lemma fetchAll_unsaved:
  "state_after (fetchAll js c q st es) = st
   \<and> (\<forall>v. CallSaveState k v \<notin> set (calls (fetchAll js c q st es)))"
  using fetchAll_frame[of js c q st es] by simp

lemma rewritten_statement:
  assumes "TrimSpace (Query q) \<noteq> []" and "TrimSpace (IndexColumnName q) \<noteq> []"
    and "IndexColumnType q = ''TIMESTAMP'' \<or> IndexColumnType q = ''NUMBER''"
    and "\<not> Contains (Query q) ''STATEVALUE''" and "\<not> Contains (Query q) ''INDEXCOLUMNNAME''"
    and "\<not> Contains (GetState q st) ''INDEXCOLUMNNAME''"
  shows "take 2 (calls (getRecords js c q st)) =
           [CallGetState (QueryId q),
            CallQuery (trailingPredicate (Query q) (IndexColumnType q) (IndexColumnName q)
                         (GetState q st))]"
proof -
  let ?v = "GetState q st"
  have sql: "Replace (Replace
        (Query q @ (if Contains (Query q) ''where'' then '' and '' else '' where '')
              @ ''INDEXCOLUMNNAME > ''
              @ (if IndexColumnType q = ''TIMESTAMP'' then [quote] @ ''STATEVALUE'' @ [quote]
                 else ''STATEVALUE'')
              @ '' order by INDEXCOLUMNNAME asc;'') ''STATEVALUE'' ?v)
        ''INDEXCOLUMNNAME'' (IndexColumnName q)
      = trailingPredicate (Query q) (IndexColumnType q) (IndexColumnName q) ?v"
    using assms(4-6)
      Replace_NUMBER[of "Query q" ?v "IndexColumnName q"]
      Replace_NUMBER_where[of "Query q" ?v "IndexColumnName q"]
      Replace_TIMESTAMP[of "Query q" ?v "IndexColumnName q"]
      Replace_TIMESTAMP_where[of "Query q" ?v "IndexColumnName q"]
    by (simp add: trailingPredicate_def)
  show ?thesis
    using assms(2) sql
    by (simp add: getRecords_def checkQuery_incremental[OF assms(1-3)] fetchIncremental_calls)
qed

subsection \<open>The rewritten query\<close>

text \<open>
  C2. The trailing predicate should be joined with \<open>and\<close> when the query text already has
  a filter clause and with \<open>where\<close> otherwise. The code looks for the substring \<open>where\<close>
  in small letters. A query with a WHERE clause in capitals gets a second \<open>where\<close>, and a
  query without filter clause on the table somewhere gets an \<open>and\<close>; neither statement
  is valid SQL.
\<close>

theorem getRecords_misses_filter_clause:
  "take 2 (calls (getRecords objectCodec (connected (answers exampleSQL deptManager))
      upperWhereQuery Map.empty))
   = [CallGetState ''Q2'',
      CallQuery ''SELECT * FROM dept_manager WHERE emp_no < 100 where emp_no > 3 order by emp_no asc;'']
   \<and> take 2 (calls (getRecords objectCodec (connected (answers exampleSQL deptManager))
      somewhereQuery Map.empty))
   = [CallGetState ''Q2'',
      CallQuery ''select * from somewhere and emp_no > 3 order by emp_no asc;'']"
  by code_simp

text \<open>
  Both replacements run over the whole text: a query that names STATEVALUE is sent with
  the checkpoint in its select list.
\<close>

lemma placeholder_in_query_text:
  "take 2 (calls (getRecords objectCodec (connected (answers exampleSQL deptManager))
      stateValueQuery Map.empty))
   = [CallGetState ''Q2'',
      CallQuery ''Select emp_no, 3 from dept_manager where emp_no > 3 order by emp_no asc;'']"
  by code_simp

subsection \<open>Queries without index column\<close>

text \<open>
  C7. For a query without index column (blank after trimming) and with a text that is not
  blank, getRecords sends the configured text verbatim as its only statement, makes no
  call on the checkpoint store, returns the same for every checkpoint store, and leaves
  store and query as they were, so that a second call on what the first left behind
  returns the same as the first. When the database answers with rows, the returned map
  has one record per row, keyed by the query identifier and the position of the row;
  and when none of the values is NULL, the record of a row is the encoding of an object
  that holds, for every column name, the value of the row in that column (in the last
  column of that name).
\<close>

theorem getRecords_snapshot:
  assumes "TrimSpace (IndexColumnName q) = []" and "TrimSpace (Query q) \<noteq> []"
  shows "calls (getRecords js c q st) = [CallQuery (Query q)]
       \<and> state_after (getRecords js c q st) = st
       \<and> dbquery_after (getRecords js c q st) = q
       \<and> (\<forall>st'. ret (getRecords js c q st') = ret (getRecords js c q st))
       \<and> getRecords js c (dbquery_after (getRecords js c q st)) (state_after (getRecords js c q st))
           = getRecords js c q st
       \<and> (\<forall>db rows columns.
             client c = Some db \<and> Query_db db (Query q) = Inr rows
             \<and> Columns rows = Inr columns \<and> Err rows = None
             \<and> (\<forall>r \<in> set (Next rows). \<exists>vs. r = Inr vs \<and> length vs = length columns)
             \<and> (\<forall>obj. \<exists>d. Marshal js obj = Inr d)
             \<longrightarrow> (\<exists>recs. ret (getRecords js c q st) = Returned (Some recs, None)
                    \<and> map fst recs = map (recordKey (QueryId q)) [1..<Suc (length (Next rows))]))
       \<and> (\<forall>db rows columns vss enc.
             client c = Some db \<and> Query_db db (Query q) = Inr rows
             \<and> Columns rows = Inr columns \<and> Err rows = None
             \<and> Next rows = map (\<lambda>vs. Inr (map Some vs)) vss
             \<and> (\<forall>vs \<in> set vss. length vs = length columns)
             \<and> (\<forall>obj. Marshal js obj = Inr (enc obj))
             \<longrightarrow> (\<exists>objs. length objs = length vss
                    \<and> (\<forall>i<length vss. map_of (objs ! i) = map_of (rev (zip columns (vss ! i))))
                    \<and> ret (getRecords js c q st) =
                        Returned (Some (map (\<lambda>i. (recordKey (QueryId q) (Suc i), enc (objs ! i)))
                                          [0..<length vss]), None)))"
proof -
  let ?es = "[Entry InfoLevel
      ''IndexColumnName missing from collector config file, so fetching all records for:''
      [queryIdField (QueryId q)]]"
  have g: "\<And>st. getRecords js c q st = fetchAll js c q st ?es"
    using assms by (simp add: getRecords_def checkQuery_snapshot)
  have frame: "calls (getRecords js c q st) = [CallQuery (Query q)]"
    "state_after (getRecords js c q st) = st" "dbquery_after (getRecords js c q st) = q"
    using fetchAll_frame[of js c q st ?es] by (simp_all add: g)
  have indep: "\<forall>st'. ret (getRecords js c q st') = ret (getRecords js c q st)"
    unfolding g by (intro allI fetchAll_ret)
  have keys: "\<exists>recs. ret (getRecords js c q st) = Returned (Some recs, None)
      \<and> map fst recs = map (recordKey (QueryId q)) [1..<Suc (length (Next rows))]"
    if "client c = Some db" "Query_db db (Query q) = Inr rows" "Columns rows = Inr columns"
      "Err rows = None" "\<forall>r \<in> set (Next rows). \<exists>vs. r = Inr vs \<and> length vs = length columns"
      "\<forall>obj. \<exists>d. Marshal js obj = Inr d" for db rows columns
    using fetchAll_rows[of c db q rows columns js st ?es] that by (simp add: g)
  have contents: "\<exists>objs. length objs = length vss
      \<and> (\<forall>i<length vss. map_of (objs ! i) = map_of (rev (zip columns (vss ! i))))
      \<and> ret (getRecords js c q st) =
          Returned (Some (map (\<lambda>i. (recordKey (QueryId q) (Suc i), enc (objs ! i)))
                            [0..<length vss]), None)"
    if "client c = Some db" "Query_db db (Query q) = Inr rows" "Columns rows = Inr columns"
      "Err rows = None" "Next rows = map (\<lambda>vs. Inr (map Some vs)) vss"
      "\<forall>vs \<in> set vss. length vs = length columns" "\<forall>obj. Marshal js obj = Inr (enc obj)"
    for db rows columns vss and enc :: "(string \<times> string) list \<Rightarrow> 'a"
    using fetchAll_records[of c db q rows columns vss js enc st ?es] that by (simp add: g)
  from frame indep keys contents show ?thesis by (simp only: simp_thms) blast
qed

theorem getRecords_snapshot_witness:
  "calls (getRecords objectCodec (connected (answers ''Select * from departments'' departments))
      exampleQ1 Map.empty) = [CallQuery ''Select * from departments'']
   \<and> (\<exists>objs. length objs = 2
        \<and> map_of (objs ! 0) = [''dept_no'' \<mapsto> ''d001'', ''dept_name'' \<mapsto> ''Marketing'']
        \<and> map_of (objs ! 1) = [''dept_no'' \<mapsto> ''d002'', ''dept_name'' \<mapsto> ''Finance'']
        \<and> ret (getRecords objectCodec
              (connected (answers ''Select * from departments'' departments)) exampleQ1 Map.empty)
            = Returned (Some [(''Q1_record1'', objs ! 0), (''Q1_record2'', objs ! 1)], None))"
proof -
  let ?c = "connected (answers ''Select * from departments'' departments)"
  let ?db = "\<lparr>Query_db = answers ''Select * from departments'' departments,
        ConnMaxLifetime = Minute * 3, MaxOpenConns = 10, MaxIdleConns = 10\<rparr>"
  let ?vss = "[[''d001'', ''Marketing''], [''d002'', ''Finance'']]"
  have h: "TrimSpace (IndexColumnName exampleQ1) = []" "TrimSpace (Query exampleQ1) \<noteq> []"
    by code_simp+
  have k: "recordKey ''Q1'' (Suc 0) = ''Q1_record1''" "recordKey ''Q1'' (Suc (Suc 0)) = ''Q1_record2''"
    by code_simp+
  have pre: "client ?c = Some ?db" "Query_db ?db (Query exampleQ1) = Inr departments"
    "Columns departments = Inr [''dept_no'', ''dept_name'']" "Err departments = None"
    "Next departments = map (\<lambda>vs. Inr (map Some vs)) ?vss"
    "\<forall>vs \<in> set ?vss. length vs = length [''dept_no'', ''dept_name'']"
    "\<forall>obj. Marshal objectCodec obj = Inr (id obj)"
    by (simp_all add: connected_def answers_def exampleQ1_def departments_def objectCodec_def)
  note t = getRecords_snapshot[OF h, of objectCodec ?c Map.empty]
  from t have calls: "calls (getRecords objectCodec ?c exampleQ1 Map.empty)
      = [CallQuery ''Select * from departments'']"
    by (simp add: exampleQ1_def)
  from t pre obtain objs where objs: "length objs = length ?vss"
    "\<forall>i<length ?vss. map_of (objs ! i) = map_of (rev (zip [''dept_no'', ''dept_name''] (?vss ! i)))"
    "ret (getRecords objectCodec ?c exampleQ1 Map.empty) =
       Returned (Some (map (\<lambda>i. (recordKey (QueryId exampleQ1) (Suc i), id (objs ! i)))
                         [0..<length ?vss]), None)"
    by blast
  from objs(2) have "map_of (objs ! 0) = [''dept_no'' \<mapsto> ''d001'', ''dept_name'' \<mapsto> ''Marketing'']"
    "map_of (objs ! 1) = [''dept_no'' \<mapsto> ''d002'', ''dept_name'' \<mapsto> ''Finance'']"
    by simp_all
  moreover from objs(3) k have "ret (getRecords objectCodec ?c exampleQ1 Map.empty)
      = Returned (Some [(''Q1_record1'', objs ! 0), (''Q1_record2'', objs ! 1)], None)"
    by (simp add: exampleQ1_def upt_rec[of 0] upt_rec[of 1] upt_rec[of 2])
  ultimately show ?thesis using calls objs(1) by (intro conjI exI[of _ objs]) simp_all
qed

text \<open>
  A query without index column whose text is blank is not run: the call logs an error
  and returns a nil map.
\<close>

theorem getRecords_runs_nothing_for_blank_text:
  "TrimSpace (IndexColumnName blankQuery) = []
   \<and> calls (getRecords objectCodec (connected (answers ''Select * from departments'' departments))
        blankQuery Map.empty) = []
   \<and> ret (getRecords objectCodec (connected (answers ''Select * from departments'' departments))
        blankQuery Map.empty) = Returned (None, None)
   \<and> logged (getRecords objectCodec (connected (answers ''Select * from departments'' departments))
        blankQuery Map.empty)
     = [Entry ErrorLevel ''Query is empty, check collector config file for:''
          [(''queryId'', ''Q1'')]]"
  by code_simp

subsection \<open>When the checkpoint is written\<close>

text \<open>
  C1. The checkpoint is written by getRecords itself, after the fetch and before it
  returns: whenever a call for a query with index column returns a non-empty map of
  records, the store it leaves behind already holds a new value for the query, and the
  calls made are the read of the checkpoint, the statement and, last, the write of the
  checkpoint. getRecords has no input that tells of a delivery. The store is left as it
  was when the query has no index column and when the call panics or returns nil or an
  empty map; then no write is among the calls.
\<close>

theorem getRecords_saves_before_return:
  "(TrimSpace (IndexColumnName q) \<noteq> [] \<and> ret (getRecords js c q st) = Returned (Some recs, None)
      \<and> recs \<noteq> []
    \<longrightarrow> (\<exists>v. state_after (getRecords js c q st) = st(QueryId q \<mapsto> v)
          \<and> calls (getRecords js c q st) =
              [CallGetState (QueryId q), CallQuery (Query (dbquery_after (getRecords js c q st))),
               CallSaveState (QueryId q) v]))
   \<and> (TrimSpace (IndexColumnName q) = [] \<or> ret (getRecords js c q st) = Panicked
       \<or> ret (getRecords js c q st) = Returned (None, None)
       \<or> ret (getRecords js c q st) = Returned (Some [], None)
    \<longrightarrow> state_after (getRecords js c q st) = st
        \<and> (\<forall>v. CallSaveState (QueryId q) v \<notin> set (calls (getRecords js c q st))))"
proof -
  from getRecords_cases[of q js c st]
  consider (fixed) "state_after (getRecords js c q st) = st" "calls (getRecords js c q st) = []"
      "ret (getRecords js c q st) = Returned (None, None)"
    | (snapshot) es where "TrimSpace (IndexColumnName q) = []"
        "getRecords js c q st = fetchAll js c q st es"
    | (incremental) t es where "TrimSpace (IndexColumnName q) \<noteq> []"
        "getRecords js c q st = fetchIncremental js c (q\<lparr>Query := t\<rparr>) st es"
    by auto
  then show ?thesis
  proof cases
    case fixed
    then show ?thesis by simp
  next
    case snapshot
    then show ?thesis using fetchAll_unsaved[of js c q st es "QueryId q"] by simp
  next
    case incremental
    have saved: "\<exists>v. state_after (getRecords js c q st) = st(QueryId q \<mapsto> v)
          \<and> calls (getRecords js c q st) =
              [CallGetState (QueryId q), CallQuery (Query (dbquery_after (getRecords js c q st))),
               CallSaveState (QueryId q) v]"
      if "ret (getRecords js c q st) = Returned (Some recs, None)" "recs \<noteq> []"
      using fetchIncremental_saved[of js c "q\<lparr>Query := t\<rparr>" st es recs] that incremental
      by simp
    have unsaved: "state_after (getRecords js c q st) = st
        \<and> (\<forall>v. CallSaveState (QueryId q) v \<notin> set (calls (getRecords js c q st)))"
      if "ret (getRecords js c q st) = Panicked
          \<or> ret (getRecords js c q st) = Returned (None, None)
          \<or> ret (getRecords js c q st) = Returned (Some [], None)"
      using fetchIncremental_unsaved[of js c "q\<lparr>Query := t\<rparr>" st es] that incremental
      by auto
    from incremental(1) saved unsaved show ?thesis by blast
  qed
qed

theorem getRecords_saves_before_return_witness:
  "(\<exists>v. state_after (getRecords objectCodec (connected (answers exampleSQL deptManager))
            exampleQ2 Map.empty) = [''Q2'' \<mapsto> v]
        \<and> calls (getRecords objectCodec (connected (answers exampleSQL deptManager))
            exampleQ2 Map.empty) =
            [CallGetState ''Q2'', CallQuery exampleSQL, CallSaveState ''Q2'' v])
   \<and> state_after (getRecords objectCodec
          (connected (answers ''Select * from departments'' departments)) exampleQ1 Map.empty)
       = Map.empty"
proof -
  let ?r = "getRecords objectCodec (connected (answers exampleSQL deptManager)) exampleQ2
      Map.empty"
  have h: "TrimSpace (IndexColumnName exampleQ2) \<noteq> []"
    "ret ?r = Returned (Some [(''Q2_record1'', [(''emp_no'', ''4''), (''dept_no'', ''d001'')]),
                              (''Q2_record2'', [(''emp_no'', ''7''), (''dept_no'', ''d002'')])], None)"
    "Query (dbquery_after ?r) = exampleSQL" "QueryId exampleQ2 = ''Q2''"
    by code_simp+
  have h1: "TrimSpace (IndexColumnName exampleQ1) = []" by code_simp
  from getRecords_saves_before_return[of exampleQ2 objectCodec
      "connected (answers exampleSQL deptManager)" Map.empty
      "[(''Q2_record1'', [(''emp_no'', ''4''), (''dept_no'', ''d001'')]),
        (''Q2_record2'', [(''emp_no'', ''7''), (''dept_no'', ''d002'')])]"] h
  have a: "\<exists>v. state_after ?r = [''Q2'' \<mapsto> v]
      \<and> calls ?r = [CallGetState ''Q2'', CallQuery exampleSQL, CallSaveState ''Q2'' v]"
    by simp
  from getRecords_saves_before_return[of exampleQ1 objectCodec
      "connected (answers ''Select * from departments'' departments)" Map.empty] h1
  have b: "state_after (getRecords objectCodec
          (connected (answers ''Select * from departments'' departments)) exampleQ1 Map.empty)
       = Map.empty" by simp
  from a b show ?thesis by blast
qed

text \<open>
  On the example of the specification the checkpoint is 7 when getRecords returns the two
  records, before any consumer has seen them.
\<close>

theorem getRecords_checkpoint_advanced_on_fetch:
  "ret (getRecords objectCodec (connected (answers exampleSQL deptManager)) exampleQ2 Map.empty)
     = Returned (Some [(''Q2_record1'', [(''emp_no'', ''4''), (''dept_no'', ''d001'')]),
                       (''Q2_record2'', [(''emp_no'', ''7''), (''dept_no'', ''d002'')])], None)
   \<and> state_after (getRecords objectCodec (connected (answers exampleSQL deptManager)) exampleQ2
        Map.empty) ''Q2'' = Some ''7''
   \<and> calls (getRecords objectCodec (connected (answers exampleSQL deptManager)) exampleQ2
        Map.empty)
     = [CallGetState ''Q2'',
        CallQuery ''Select * from dept_manager where emp_no > 3 order by emp_no asc;'',
        CallSaveState ''Q2'' ''7'']"
  by code_simp

subsection \<open>Malformed index column configuration\<close>

text \<open>
  C6. A query with non-blank text and a non-blank index column whose index column type
  is neither TIMESTAMP nor NUMBER (none at all included) is handled by getRecords on
  every call: it logs two errors and returns a nil map and a nil error, sends no
  statement, and leaves the checkpoint store and the query as they were.
\<close>

theorem getRecords_rejects_cursor_type:
  assumes "TrimSpace (Query q) \<noteq> []" and "TrimSpace (IndexColumnName q) \<noteq> []"
    and "IndexColumnType q \<noteq> ''TIMESTAMP''" and "IndexColumnType q \<noteq> ''NUMBER''"
  shows "ret (getRecords js c q st) = Returned (None, None)
       \<and> calls (getRecords js c q st) = []
       \<and> state_after (getRecords js c q st) = st
       \<and> dbquery_after (getRecords js c q st) = q
       \<and> (\<exists>e1 e2. logged (getRecords js c q st) = [e1, e2] \<and> isError e1 \<and> isError e2)"
  using getRecords_cases[of q js c st] assms by auto

theorem getRecords_rejects_cursor_type_witness:
  "ret (getRecords objectCodec (connected (answers exampleSQL deptManager)) dateQuery Map.empty)
     = Returned (None, None)
   \<and> calls (getRecords objectCodec (connected (answers exampleSQL deptManager)) dateQuery
        Map.empty) = []"
proof -
  have h: "TrimSpace (Query dateQuery) \<noteq> []" "TrimSpace (IndexColumnName dateQuery) \<noteq> []"
    "IndexColumnType dateQuery \<noteq> ''TIMESTAMP''" "IndexColumnType dateQuery \<noteq> ''NUMBER''"
    by code_simp+
  from getRecords_rejects_cursor_type[OF h, of objectCodec
      "connected (answers exampleSQL deptManager)" Map.empty]
  show ?thesis by simp
qed

text \<open>
  The second query of the example with the type left out: the call logs and returns.
\<close>

theorem getRecords_skips_untyped_cursor:
  "ret (getRecords objectCodec (connected (answers exampleSQL deptManager)) untypedQuery Map.empty)
     = Returned (None, None)
   \<and> logged (getRecords objectCodec (connected (answers exampleSQL deptManager)) untypedQuery
        Map.empty)
     = [Entry ErrorLevel
          ''IndexColummType should be specified with a IndexColumnName for a query.''
          [(''queryId'', ''Q2'')],
        Entry ErrorLevel ''Supported values are TIMESTAMP or NUMBER.'' [(''queryId'', ''Q2'')]]
   \<and> calls (getRecords objectCodec (connected (answers exampleSQL deptManager)) untypedQuery
        Map.empty) = []"
  by code_simp

subsection \<open>What a call does to the query\<close>

text \<open>
  C4. A call of getRecords never changes the identifier, the index column name, the index
  column type or the initial value of the query behind its pointer. It leaves the whole
  query as it was when the text is blank, when there is no index column, and when the
  index column type is neither TIMESTAMP nor NUMBER. For an accepted query with index
  column it stores the statement it sends in the Query field: the text with the trailing
  predicate appended, when the text and the checkpoint hold none of the placeholder
  words.
\<close>

theorem getRecords_dbquery:
  "QueryId (dbquery_after (getRecords js c q st)) = QueryId q
   \<and> IndexColumnName (dbquery_after (getRecords js c q st)) = IndexColumnName q
   \<and> IndexColumnType (dbquery_after (getRecords js c q st)) = IndexColumnType q
   \<and> InitialIndexColumnStartValue (dbquery_after (getRecords js c q st))
       = InitialIndexColumnStartValue q
   \<and> (TrimSpace (Query q) = [] \<or> TrimSpace (IndexColumnName q) = []
       \<or> (IndexColumnType q \<noteq> ''TIMESTAMP'' \<and> IndexColumnType q \<noteq> ''NUMBER'')
      \<longrightarrow> dbquery_after (getRecords js c q st) = q)
   \<and> (TrimSpace (Query q) \<noteq> [] \<and> TrimSpace (IndexColumnName q) \<noteq> []
       \<and> (IndexColumnType q = ''TIMESTAMP'' \<or> IndexColumnType q = ''NUMBER'')
      \<longrightarrow> take 2 (calls (getRecords js c q st)) =
            [CallGetState (QueryId q), CallQuery (Query (dbquery_after (getRecords js c q st)))]
          \<and> (\<not> Contains (Query q) ''STATEVALUE'' \<and> \<not> Contains (Query q) ''INDEXCOLUMNNAME''
             \<and> \<not> Contains (GetState q st) ''INDEXCOLUMNNAME''
             \<longrightarrow> Query (dbquery_after (getRecords js c q st)) =
                   trailingPredicate (Query q) (IndexColumnType q) (IndexColumnName q)
                     (GetState q st)))"
proof -
  from getRecords_cases[of q js c st]
  consider (fixed) "dbquery_after (getRecords js c q st) = q"
      "TrimSpace (Query q) = [] \<or> (TrimSpace (IndexColumnName q) \<noteq> []
         \<and> IndexColumnType q \<noteq> ''TIMESTAMP'' \<and> IndexColumnType q \<noteq> ''NUMBER'')"
    | (snapshot) es where "TrimSpace (Query q) \<noteq> []" "TrimSpace (IndexColumnName q) = []"
        "getRecords js c q st = fetchAll js c q st es"
    | (incremental) t es where "TrimSpace (Query q) \<noteq> []" "TrimSpace (IndexColumnName q) \<noteq> []"
        "IndexColumnType q = ''TIMESTAMP'' \<or> IndexColumnType q = ''NUMBER''"
        "getRecords js c q st = fetchIncremental js c (q\<lparr>Query := t\<rparr>) st es"
    by auto
  then show ?thesis
  proof cases
    case fixed
    then show ?thesis by auto
  next
    case snapshot
    then show ?thesis using fetchAll_frame[of js c q st es] by simp
  next
    case incremental
    have sent: "take 2 (calls (getRecords js c q st)) =
        [CallGetState (QueryId q), CallQuery (Query (dbquery_after (getRecords js c q st)))]"
      using incremental(4) fetchIncremental_calls[of js c "q\<lparr>Query := t\<rparr>" st es]
      by (simp add: fetchIncremental_dbquery)
    have rewritten: "Query (dbquery_after (getRecords js c q st)) =
        trailingPredicate (Query q) (IndexColumnType q) (IndexColumnName q) (GetState q st)"
      if "\<not> Contains (Query q) ''STATEVALUE''" "\<not> Contains (Query q) ''INDEXCOLUMNNAME''"
        "\<not> Contains (GetState q st) ''INDEXCOLUMNNAME''"
      using rewritten_statement[OF incremental(1-3) that, of js c] sent by simp
    from incremental sent rewritten show ?thesis
      using fetchIncremental_fields[of js c "q\<lparr>Query := t\<rparr>" st es] by auto
  qed
qed

theorem getRecords_dbquery_witness:
  "Query (dbquery_after (getRecords objectCodec (connected (answers exampleSQL deptManager))
      exampleQ2 Map.empty))
     = ''Select * from dept_manager where emp_no > 3 order by emp_no asc;''
   \<and> QueryId (dbquery_after (getRecords objectCodec (connected (answers exampleSQL deptManager))
      exampleQ2 Map.empty)) = ''Q2''
   \<and> dbquery_after (getRecords objectCodec
        (connected (answers ''Select * from departments'' departments)) exampleQ1 Map.empty)
     = exampleQ1"
proof -
  have h: "TrimSpace (Query exampleQ2) \<noteq> []" "TrimSpace (IndexColumnName exampleQ2) \<noteq> []"
    "IndexColumnType exampleQ2 = ''NUMBER''"
    "\<not> Contains (Query exampleQ2) ''STATEVALUE''"
    "\<not> Contains (Query exampleQ2) ''INDEXCOLUMNNAME''"
    "\<not> Contains (GetState exampleQ2 Map.empty) ''INDEXCOLUMNNAME''"
    "trailingPredicate (Query exampleQ2) (IndexColumnType exampleQ2)
          (IndexColumnName exampleQ2) (GetState exampleQ2 Map.empty)
        = ''Select * from dept_manager where emp_no > 3 order by emp_no asc;''"
    "QueryId exampleQ2 = ''Q2''"
    by code_simp+
  have h1: "TrimSpace (IndexColumnName exampleQ1) = []" by code_simp
  from getRecords_dbquery[of objectCodec "connected (answers exampleSQL deptManager)"
      exampleQ2 Map.empty] h
  have a: "Query (dbquery_after (getRecords objectCodec (connected (answers exampleSQL deptManager))
      exampleQ2 Map.empty))
     = ''Select * from dept_manager where emp_no > 3 order by emp_no asc;''
   \<and> QueryId (dbquery_after (getRecords objectCodec (connected (answers exampleSQL deptManager))
      exampleQ2 Map.empty)) = ''Q2''"
    by simp
  from getRecords_dbquery[of objectCodec
      "connected (answers ''Select * from departments'' departments)" exampleQ1 Map.empty] h1
  have b: "dbquery_after (getRecords objectCodec
        (connected (answers ''Select * from departments'' departments)) exampleQ1 Map.empty)
     = exampleQ1" by simp
  from a b show ?thesis by blast
qed

text \<open>
  On the example, the query text after the first call is the rewritten statement, and a
  second call on the same struct appends a second predicate to it.
\<close>

theorem getRecords_overwrites_query:
  "Query exampleQ2 = ''Select * from dept_manager''
   \<and> Query (dbquery_after (getRecords objectCodec (connected (answers exampleSQL deptManager))
        exampleQ2 Map.empty))
     = ''Select * from dept_manager where emp_no > 3 order by emp_no asc;''
   \<and> take 2 (calls (getRecords objectCodec (connected (answers exampleSQL deptManager))
        (dbquery_after (getRecords objectCodec (connected (answers exampleSQL deptManager))
           exampleQ2 Map.empty))
        (state_after (getRecords objectCodec (connected (answers exampleSQL deptManager))
           exampleQ2 Map.empty))))
     = [CallGetState ''Q2'',
        CallQuery ''Select * from dept_manager where emp_no > 3 order by emp_no asc; and emp_no > 7 order by emp_no asc;'']"
  by code_simp

subsection \<open>The checkpoint that is saved\<close>

text \<open>
  When no value of the fetched rows is NULL, the column names are distinct and the index
  column is among them, and decoding inverts encoding, the checkpoint saved is the value
  of the index column in the last row.
\<close>

lemma getRecords_checkpoint_last_row:
  assumes "TrimSpace (Query q) \<noteq> []" and "TrimSpace (IndexColumnName q) \<noteq> []"
    and "IndexColumnType q = ''TIMESTAMP'' \<or> IndexColumnType q = ''NUMBER''"
    and "client c = Some db"
    and "Query_db db (Query (dbquery_after (getRecords js c q st))) = Inr rows"
    and "Columns rows = Inr columns" and "Err rows = None"
    and "Next rows = map (\<lambda>vs. Inr (map Some vs)) (vss @ [vs])"
    and len: "\<And>x. x \<in> set (vss @ [vs]) \<Longrightarrow> length x = length columns"
    and "distinct columns" and "i < length columns" and "columns ! i = IndexColumnName q"
    and codec: "\<And>obj. \<exists>d. Marshal js obj = Inr d
        \<and> (\<exists>ob. Unmarshal js d = Inr ob \<and> (\<forall>k. map_of ob k = map_option JString (map_of obj k)))"
  shows "state_after (getRecords js c q st) = st(QueryId q \<mapsto> vs ! i)
       \<and> (\<exists>recs. ret (getRecords js c q st) = Returned (Some recs, None))"
proof -
  from getRecords_cases[of q js c st] assms(1-3)
  obtain t es where g: "getRecords js c q st = fetchIncremental js c (q\<lparr>Query := t\<rparr>) st es"
    by auto
  let ?q = "q\<lparr>Query := t\<rparr>"
  let ?sql = "Replace (Replace (Query ?q) ''STATEVALUE'' (GetState ?q st))
      ''INDEXCOLUMNNAME'' (IndexColumnName ?q)"
  have total: "\<And>obj. \<exists>d. Marshal js obj = Inr d" using codec by blast
  have ans: "Query_db db ?sql = Inr rows"
    using assms(5) by (simp add: g fetchIncremental_dbquery)
  from ExecuteQueryandFetchRecords_last[OF assms(4) ans assms(6-8) len total, of "QueryId q"]
  obtain recs li obj d where e:
    "ExecuteQueryandFetchRecords js c ?sql (QueryId q) = Returned ((Some recs, li, None), [])"
    "map_of recs li = Some d" "Marshal js (setFields columns vs obj) = Inr d"
    "distinct (map fst recs)"
    by blast
  from e(2) have ne: "recs \<noteq> []" by auto
  from e(4) have copy: "copyRecords (Some recs) = recs" by (rule copyRecords_distinct)
  from codec[of "setFields columns vs obj"] e(3)
  obtain ob where u: "Unmarshal js d = Inr ob"
    "\<forall>k. map_of ob k = map_option JString (map_of (setFields columns vs obj) k)"
    by auto
  have "length vs = length columns" using len by simp
  from setFields_field[OF assms(10) this assms(11), of obj] u(2) assms(12)
  have field: "map_of ob (IndexColumnName q) = Some (JString (vs ! i))" by simp
  show ?thesis
    using e(1,2) ne copy u(1) field
    by (simp add: g fetchIncremental_def Let_def noRecords_def SaveState_def)
qed

text \<open>
  C3. The checkpoint saved should be the value of the index column in the last row. On
  the rows \<open>(d001, 4, 1985-01-01)\<close> and \<open>(NULL, 7, 1991-10-01)\<close> of the columns dept_no,
  emp_no and from_date the code saves 1991-10-01, not 7: the NULL is dropped from the
  line, the values after it move one column to the left, and the field emp_no of the
  last record holds the date.
\<close>

theorem getRecords_checkpoint_from_shifted_column:
  "ret (getRecords objectCodec (connected (answers exampleSQL deptManagerNull)) exampleQ2
      Map.empty)
     = Returned (Some
         [(''Q2_record1'',
           [(''dept_no'', ''d001''), (''emp_no'', ''4''), (''from_date'', ''1985-01-01'')]),
          (''Q2_record2'',
           [(''dept_no'', ''7''), (''emp_no'', ''1991-10-01''), (''from_date'', ''1985-01-01'')])],
         None)
   \<and> state_after (getRecords objectCodec (connected (answers exampleSQL deptManagerNull))
        exampleQ2 Map.empty) ''Q2'' = Some ''1991-10-01''"
  by code_simp

subsection \<open>The error result\<close>

text \<open>
  Every return of getRecords carries a nil error, and a fetch that failed (a nil map from
  ExecuteQueryandFetchRecords, with its error logged) is returned as the empty map, like
  a fetch without rows.
\<close>

lemma failed_fetch_as_empty:
  assumes "ExecuteQueryandFetchRecords js c sql (QueryId q) = Returned ((None, li, e), es')"
  shows "Query q = sql \<Longrightarrow> ret (fetchAll js c q st es) = Returned (Some [], None)"
    and "Replace (Replace (Query q) ''STATEVALUE'' (GetState q st)) ''INDEXCOLUMNNAME''
           (IndexColumnName q) = sql
         \<Longrightarrow> ret (fetchIncremental js c q st es) = Returned (Some [], None)
             \<and> state_after (fetchIncremental js c q st es) = st"
proof -
  from assms have e: "e = None" by (rule ExecuteQueryandFetchRecords_nil_error)
  show "Query q = sql \<Longrightarrow> ret (fetchAll js c q st es) = Returned (Some [], None)"
    using assms e by (simp add: fetchAll_def copyRecords_def)
  show "Replace (Replace (Query q) ''STATEVALUE'' (GetState q st)) ''INDEXCOLUMNNAME''
           (IndexColumnName q) = sql
         \<Longrightarrow> ret (fetchIncremental js c q st es) = Returned (Some [], None)
             \<and> state_after (fetchIncremental js c q st es) = st"
    using assms e by (simp add: fetchIncremental_def Let_def copyRecords_def noRecords_def)
qed

lemma getRecords_nil_error:
  "ret (getRecords js c q st) = Returned (recs, e) \<Longrightarrow> e = None"
proof -
  have a: "\<And>q es. ret (fetchAll js c q st es) = Returned (recs, e) \<Longrightarrow> e = None"
    by (auto simp: fetchAll_def split: outcome.splits option.splits prod.splits)
  have b: "\<And>q es. ret (fetchIncremental js c q st es) = Returned (recs, e) \<Longrightarrow> e = None"
    by (auto simp: fetchIncremental_def Let_def
        split: outcome.splits option.splits sum.splits prod.splits jvalue.splits if_splits)
  assume "ret (getRecords js c q st) = Returned (recs, e)"
  with getRecords_cases[of q js c st] a b show ?thesis by auto
qed

text \<open>
  C10. Every call should return, with a nil error. A query that selects only dept_no and
  has the index column emp_no is answered with one row; the decoded last record has no
  field emp_no, the type assertion panics, and getRecords does not return.
\<close>

theorem getRecords_panics_without_cursor_field:
  "ret (getRecords objectCodec
      (connected (answers ''Select dept_no from dept_manager where emp_no > 3 order by emp_no asc;''
         deptNoRows)) deptNoQuery Map.empty) = Panicked
   \<and> calls (getRecords objectCodec
      (connected (answers ''Select dept_no from dept_manager where emp_no > 3 order by emp_no asc;''
         deptNoRows)) deptNoQuery Map.empty)
     = [CallGetState ''Q2'',
        CallQuery ''Select dept_no from dept_manager where emp_no > 3 order by emp_no asc;'']"
  by code_simp

end
